theory Spec2Isabelle
  imports Complex_Main
begin

section \<open>Python values used by the program\<close>

text \<open>
  The program is Python. A string is the list of its code points (\<open>str\<close> is a sequence
  of Unicode code points, and \<open>strip\<close>, \<open>split\<close>, \<open>lower\<close> and \<open>float\<close> look at them as such);
  \<open>u\<close> writes an ASCII literal. The tables of the Unicode properties are those of
  Unicode 14.0, the version of CPython 3.11. Dictionaries are association lists in
  insertion order (Python dictionaries keep that order and the search depends on it), and
  exceptions are values of \<open>py_error\<close> on the left of a sum.
\<close>

datatype py_error =
  ValueError | AttributeError | IndexError | KeyError | TypeError | OverflowError | IOError
| CsvError

type_synonym pystr = "nat list"

text \<open>The content of a file or of a response: its bytes.\<close>

type_synonym bytes = "nat list"

definition u :: "string \<Rightarrow> pystr" where
  [simp]: "u s = map of_char s"

subsection \<open>Floats\<close>

text \<open>
  A Python \<open>float\<close> is an IEEE 754 double: a finite value, given by the rational it is
  exactly, or one of the three special values. (The two zeros are not told apart: the
  program never looks at the sign of a zero.) Every ordered comparison with \<open>NaN\<close> is
  false.
\<close>

datatype pyfloat = Fin rat | PInf | NInf | NaN

fun float_le0 :: "pyfloat \<Rightarrow> bool" where
  "float_le0 (Fin r) = (r \<le> 0)"
| "float_le0 PInf = False"
| "float_le0 NInf = True"
| "float_le0 NaN = False"

fun float_gt0 :: "pyfloat \<Rightarrow> bool" where
  "float_gt0 (Fin r) = (0 < r)"
| "float_gt0 PInf = True"
| "float_gt0 NInf = False"
| "float_gt0 NaN = False"

fun float_lt0 :: "pyfloat \<Rightarrow> bool" where
  "float_lt0 (Fin r) = (r < 0)"
| "float_lt0 PInf = False"
| "float_lt0 NInf = True"
| "float_lt0 NaN = False"

text \<open>Truth value of a float in a condition (\<open>if price:\<close>): everything but zero.\<close>

fun float_truthy :: "pyfloat \<Rightarrow> bool" where
  "float_truthy (Fin r) = (r \<noteq> 0)"
| "float_truthy _ = True"

text \<open>
  Rounding to the nearest double, ties to even. \<open>binade n a\<close> is the exponent \<open>e\<close> with
  \<open>2^e \<le> a < 2^(e+1)\<close> of a positive \<open>a\<close>, found in at most \<open>n\<close> halvings or doublings
  (beyond \<open>n\<close> it stops at \<open>n\<close> or \<open>-n\<close>, which with \<open>n = 1100\<close> is past the range of the
  doubles on either side). The doubles around \<open>a\<close> are the multiples of \<open>quantum a\<close>:
  53 significant bits, and no exponent below \<open>-1022\<close>; \<open>mantissa a\<close> is the multiple
  nearest to \<open>a\<close>, the even one of two that are equally near. A value that rounds to
  \<open>2^1024\<close> or more overflows to an infinity.
\<close>

definition pow2 :: "int \<Rightarrow> rat" where
  "pow2 e = (if 0 \<le> e then 2 ^ nat e else 1 / 2 ^ nat (- e))"

fun binade :: "nat \<Rightarrow> rat \<Rightarrow> int" where
  "binade 0 a = 0"
| "binade (Suc n) a =
     (if 2 \<le> a then binade n (a / 2) + 1 else if a < 1 then binade n (a * 2) - 1 else 0)"

definition quantum :: "rat \<Rightarrow> rat" where
  "quantum a = pow2 (max (binade 1100 a) (- 1022) - 52)"

definition round_half_even :: "rat \<Rightarrow> int" where
  "round_half_even y =
     (if y - of_int \<lfloor>y\<rfloor> < 1 / 2 then \<lfloor>y\<rfloor>
      else if 1 / 2 < y - of_int \<lfloor>y\<rfloor> then \<lfloor>y\<rfloor> + 1
      else if even \<lfloor>y\<rfloor> then \<lfloor>y\<rfloor>
      else \<lfloor>y\<rfloor> + 1)"

definition mantissa :: "rat \<Rightarrow> int" where
  "mantissa a = round_half_even (a / quantum a)"

definition nearest :: "rat \<Rightarrow> rat" where
  "nearest r =
     (if r < 0 then - (of_int (mantissa (- r)) * quantum (- r))
      else of_int (mantissa r) * quantum r)"

definition overflows :: "rat \<Rightarrow> bool" where
  "overflows r =
     (1024 \<le> binade 1100 \<bar>r\<bar> \<or> (binade 1100 \<bar>r\<bar> = 1023 \<and> 2 ^ 53 \<le> mantissa \<bar>r\<bar>))"

definition round_to_double :: "rat \<Rightarrow> pyfloat" where
  "round_to_double r =
     (if overflows r then (if r < 0 then NInf else PInf) else Fin (nearest r))"

text \<open>
  The arithmetic of the program on floats: the exact result, rounded. \<open>x / 100\<close>,
  \<open>x * y\<close>, \<open>x + y\<close> and \<open>round(x, 2)\<close>; the last is the nearest double to the nearest
  multiple of one hundredth, a tie between two multiples going to the even one.
\<close>

fun float_div_100 :: "pyfloat \<Rightarrow> pyfloat" where
  "float_div_100 (Fin r) = round_to_double (r / 100)"
| "float_div_100 x = x"

fun float_sign :: "pyfloat \<Rightarrow> int" where
  "float_sign (Fin r) = (if r < 0 then - 1 else if r = 0 then 0 else 1)"
| "float_sign PInf = 1"
| "float_sign NInf = - 1"
| "float_sign NaN = 0"

definition float_mul :: "pyfloat \<Rightarrow> pyfloat \<Rightarrow> pyfloat" where
  "float_mul x y =
     (case (x, y) of
        (Fin a, Fin b) \<Rightarrow> round_to_double (a * b)
      | _ \<Rightarrow>
          if x = NaN \<or> y = NaN \<or> float_sign x * float_sign y = 0 then NaN
          else if 0 < float_sign x * float_sign y then PInf
          else NInf)"

definition float_add :: "pyfloat \<Rightarrow> pyfloat \<Rightarrow> pyfloat" where
  "float_add x y =
     (case (x, y) of
        (Fin a, Fin b) \<Rightarrow> round_to_double (a + b)
      | _ \<Rightarrow>
          if x = NaN \<or> y = NaN \<or> (x = PInf \<and> y = NInf) \<or> (x = NInf \<and> y = PInf) then NaN
          else if x = PInf \<or> y = PInf then PInf
          else NInf)"

definition round2 :: "rat \<Rightarrow> rat" where
  "round2 x = of_int (round_half_even (x * 100)) / 100"

fun float_round2 :: "pyfloat \<Rightarrow> pyfloat" where
  "float_round2 (Fin r) = round_to_double (round2 r)"
| "float_round2 x = x"

text \<open>
  \<open>x // 100\<close> as CPython computes it (\<open>float_floor_div\<close>, on \<open>_float_div_mod\<close>): the
  remainder \<open>mod = fmod(x, 100)\<close> is exact and has the sign of \<open>x\<close>; the quotient is
  \<open>div = (x - mod) / 100\<close> in rounded arithmetic, less one when the remainder is negative;
  it is then snapped to the integer below it or, when it is more than a half above that,
  to the next one. The floor division of an infinity or a NaN is a NaN.
\<close>

definition fmod_100 :: "rat \<Rightarrow> rat" where
  "fmod_100 vx = vx - 100 * of_int (if 0 \<le> vx then \<lfloor>vx / 100\<rfloor> else \<lceil>vx / 100\<rceil>)"

definition snap :: "rat \<Rightarrow> rat" where
  "snap d =
     (if d = 0 then 0
      else if 1 / 2 < d - of_int \<lfloor>d\<rfloor> then nearest (of_int \<lfloor>d\<rfloor> + 1)
      else of_int \<lfloor>d\<rfloor>)"

fun float_floordiv_100 :: "pyfloat \<Rightarrow> pyfloat" where
  "float_floordiv_100 (Fin vx) =
     Fin (snap (if fmod_100 vx < 0
                then nearest (nearest (nearest (vx - fmod_100 vx) / 100) - 1)
                else nearest (nearest (vx - fmod_100 vx) / 100)))"
| "float_floordiv_100 x = NaN"

text \<open>\<open>int(x)\<close> for a float: truncation; it refuses a NaN and an infinity.\<close>

fun int_of_float :: "pyfloat \<Rightarrow> py_error + int" where
  "int_of_float (Fin r) = Inr (if 0 \<le> r then \<lfloor>r\<rfloor> else \<lceil>r\<rceil>)"
| "int_of_float NaN = Inl ValueError"
| "int_of_float x = Inl OverflowError"

subsection \<open>Strings\<close>

text \<open>\<open>c.isspace()\<close>: the code points that \<open>strip()\<close> and \<open>split()\<close> treat as whitespace.\<close>

definition is_space :: "nat \<Rightarrow> bool" where
  "is_space c =
     (c = 32 \<or> (9 \<le> c \<and> c \<le> 13) \<or> (28 \<le> c \<and> c \<le> 31) \<or> c = 133 \<or> c = 160
      \<or> c = 5760 \<or> (8192 \<le> c \<and> c \<le> 8202) \<or> c = 8232 \<or> c = 8233 \<or> c = 8239
      \<or> c = 8287 \<or> c = 12288)"

text \<open>
  The decimal digits of Unicode come in runs of ten, from the digit zero up; the runs
  other than \<open>0\<close> to \<open>9\<close> start at the code points of \<open>decimal_starts\<close>.
\<close>

definition decimal_starts :: "nat list" where
  "decimal_starts =
     [
      1632, 1776, 1984, 2406, 2534, 2662, 2790, 2918, 3046, 3174,
      3302, 3430, 3558, 3664, 3792, 3872, 4160, 4240, 6112, 6160,
      6470, 6608, 6784, 6800, 6992, 7088, 7232, 7248, 42528, 43216,
      43264, 43472, 43504, 43600, 44016, 65296, 66720, 68912, 69734, 69872,
      69942, 70096, 70384, 70736, 70864, 71248, 71360, 71472, 71904, 72016,
      72784, 73040, 73120, 92768, 92864, 93008, 120782, 120792, 120802, 120812,
      120822, 123200, 123632, 125264, 130032
     ]"

definition decimal_of :: "nat \<Rightarrow> nat option" where
  "decimal_of c =
     (if 48 \<le> c \<and> c \<le> 57 then Some (c - 48)
      else if c < 1632 then None
      else (case find (\<lambda>s. s \<le> c \<and> c < s + 10) decimal_starts of
              Some s \<Rightarrow> Some (c - s)
            | None \<Rightarrow> None))"

text \<open>
  \<open>s.lower()\<close>. Outside ASCII a code point with a lowercase form is found in
  \<open>lower_table\<close>, whose entries \<open>(lo, hi, step, target)\<close> send \<open>lo\<close>, \<open>lo + step\<close>, ... up to
  \<open>hi\<close> to \<open>target\<close>, \<open>target + step\<close>, ...; the capital I with a dot becomes two code
  points; and a capital sigma becomes the final sigma when a cased letter comes before it
  and none after it, code points that are case-ignorable being passed over on both sides.
\<close>

definition lower_table :: "(nat \<times> nat \<times> nat \<times> nat) list" where
  "lower_table =
     [
      (192, 214, 1, 224), (216, 222, 1, 248), (256, 302, 2, 257), (306, 310, 2, 307),
      (313, 327, 2, 314), (330, 374, 2, 331), (376, 376, 1, 255), (377, 381, 2, 378),
      (385, 385, 1, 595), (386, 388, 2, 387), (390, 390, 1, 596), (391, 391, 1, 392),
      (393, 394, 1, 598), (395, 395, 1, 396), (398, 398, 1, 477), (399, 399, 1, 601),
      (400, 400, 1, 603), (401, 401, 1, 402), (403, 403, 1, 608), (404, 404, 1, 611),
      (406, 406, 1, 617), (407, 407, 1, 616), (408, 408, 1, 409), (412, 412, 1, 623),
      (413, 413, 1, 626), (415, 415, 1, 629), (416, 420, 2, 417), (422, 422, 1, 640),
      (423, 423, 1, 424), (425, 425, 1, 643), (428, 428, 1, 429), (430, 430, 1, 648),
      (431, 431, 1, 432), (433, 434, 1, 650), (435, 437, 2, 436), (439, 439, 1, 658),
      (440, 440, 1, 441), (444, 444, 1, 445), (452, 452, 1, 454), (453, 453, 1, 454),
      (455, 455, 1, 457), (456, 456, 1, 457), (458, 458, 1, 460), (459, 475, 2, 460),
      (478, 494, 2, 479), (497, 497, 1, 499), (498, 500, 2, 499), (502, 502, 1, 405),
      (503, 503, 1, 447), (504, 542, 2, 505), (544, 544, 1, 414), (546, 562, 2, 547),
      (570, 570, 1, 11365), (571, 571, 1, 572), (573, 573, 1, 410), (574, 574, 1, 11366),
      (577, 577, 1, 578), (579, 579, 1, 384), (580, 580, 1, 649), (581, 581, 1, 652),
      (582, 590, 2, 583), (880, 882, 2, 881), (886, 886, 1, 887), (895, 895, 1, 1011),
      (902, 902, 1, 940), (904, 906, 1, 941), (908, 908, 1, 972), (910, 911, 1, 973),
      (913, 929, 1, 945), (931, 939, 1, 963), (975, 975, 1, 983), (984, 1006, 2, 985),
      (1012, 1012, 1, 952), (1015, 1015, 1, 1016), (1017, 1017, 1, 1010), (1018, 1018, 1, 1019),
      (1021, 1023, 1, 891), (1024, 1039, 1, 1104), (1040, 1071, 1, 1072), (1120, 1152, 2, 1121),
      (1162, 1214, 2, 1163), (1216, 1216, 1, 1231), (1217, 1229, 2, 1218), (1232, 1326, 2, 1233),
      (1329, 1366, 1, 1377), (4256, 4293, 1, 11520), (4295, 4295, 1, 11559), (4301, 4301, 1, 11565),
      (5024, 5103, 1, 43888), (5104, 5109, 1, 5112), (7312, 7354, 1, 4304), (7357, 7359, 1, 4349),
      (7680, 7828, 2, 7681), (7838, 7838, 1, 223), (7840, 7934, 2, 7841), (7944, 7951, 1, 7936),
      (7960, 7965, 1, 7952), (7976, 7983, 1, 7968), (7992, 7999, 1, 7984), (8008, 8013, 1, 8000),
      (8025, 8031, 2, 8017), (8040, 8047, 1, 8032), (8072, 8079, 1, 8064), (8088, 8095, 1, 8080),
      (8104, 8111, 1, 8096), (8120, 8121, 1, 8112), (8122, 8123, 1, 8048), (8124, 8124, 1, 8115),
      (8136, 8139, 1, 8050), (8140, 8140, 1, 8131), (8152, 8153, 1, 8144), (8154, 8155, 1, 8054),
      (8168, 8169, 1, 8160), (8170, 8171, 1, 8058), (8172, 8172, 1, 8165), (8184, 8185, 1, 8056),
      (8186, 8187, 1, 8060), (8188, 8188, 1, 8179), (8486, 8486, 1, 969), (8490, 8490, 1, 107),
      (8491, 8491, 1, 229), (8498, 8498, 1, 8526), (8544, 8559, 1, 8560), (8579, 8579, 1, 8580),
      (9398, 9423, 1, 9424), (11264, 11311, 1, 11312), (11360, 11360, 1, 11361), (11362, 11362, 1, 619),
      (11363, 11363, 1, 7549), (11364, 11364, 1, 637), (11367, 11371, 2, 11368), (11373, 11373, 1, 593),
      (11374, 11374, 1, 625), (11375, 11375, 1, 592), (11376, 11376, 1, 594), (11378, 11378, 1, 11379),
      (11381, 11381, 1, 11382), (11390, 11391, 1, 575), (11392, 11490, 2, 11393), (11499, 11501, 2, 11500),
      (11506, 11506, 1, 11507), (42560, 42604, 2, 42561), (42624, 42650, 2, 42625), (42786, 42798, 2, 42787),
      (42802, 42862, 2, 42803), (42873, 42875, 2, 42874), (42877, 42877, 1, 7545), (42878, 42886, 2, 42879),
      (42891, 42891, 1, 42892), (42893, 42893, 1, 613), (42896, 42898, 2, 42897), (42902, 42920, 2, 42903),
      (42922, 42922, 1, 614), (42923, 42923, 1, 604), (42924, 42924, 1, 609), (42925, 42925, 1, 620),
      (42926, 42926, 1, 618), (42928, 42928, 1, 670), (42929, 42929, 1, 647), (42930, 42930, 1, 669),
      (42931, 42931, 1, 43859), (42932, 42946, 2, 42933), (42948, 42948, 1, 42900), (42949, 42949, 1, 642),
      (42950, 42950, 1, 7566), (42951, 42953, 2, 42952), (42960, 42960, 1, 42961), (42966, 42968, 2, 42967),
      (42997, 42997, 1, 42998), (65313, 65338, 1, 65345), (66560, 66599, 1, 66600), (66736, 66771, 1, 66776),
      (66928, 66964, 2, 66967), (66929, 66937, 2, 66968), (66941, 66953, 2, 66980), (66957, 66961, 2, 66996),
      (66965, 66965, 1, 67004), (68736, 68786, 1, 68800), (71840, 71871, 1, 71872), (93760, 93791, 1, 93792),
      (125184, 125217, 1, 125218)
     ]"

definition cased_ranges :: "(nat \<times> nat) list" where
  "cased_ranges =
     [
      (65, 90), (97, 122), (170, 170), (181, 181), (186, 186), (192, 214),
      (216, 246), (248, 442), (444, 447), (452, 659), (661, 687), (880, 883),
      (886, 887), (891, 893), (895, 895), (902, 902), (904, 906), (908, 908),
      (910, 929), (931, 1013), (1015, 1153), (1162, 1327), (1329, 1366), (1376, 1416),
      (4256, 4293), (4295, 4295), (4301, 4301), (4304, 4346), (4349, 4351), (5024, 5109),
      (5112, 5117), (7296, 7304), (7312, 7354), (7357, 7359), (7424, 7467), (7531, 7543),
      (7545, 7578), (7680, 7957), (7960, 7965), (7968, 8005), (8008, 8013), (8016, 8023),
      (8025, 8025), (8027, 8027), (8029, 8029), (8031, 8061), (8064, 8116), (8118, 8124),
      (8126, 8126), (8130, 8132), (8134, 8140), (8144, 8147), (8150, 8155), (8160, 8172),
      (8178, 8180), (8182, 8188), (8450, 8450), (8455, 8455), (8458, 8467), (8469, 8469),
      (8473, 8477), (8484, 8484), (8486, 8486), (8488, 8488), (8490, 8493), (8495, 8500),
      (8505, 8505), (8508, 8511), (8517, 8521), (8526, 8526), (8544, 8575), (8579, 8580),
      (9398, 9449), (11264, 11387), (11390, 11492), (11499, 11502), (11506, 11507), (11520, 11557),
      (11559, 11559), (11565, 11565), (42560, 42605), (42624, 42651), (42786, 42863), (42865, 42887),
      (42891, 42894), (42896, 42954), (42960, 42961), (42963, 42963), (42965, 42969), (42997, 42998),
      (43002, 43002), (43824, 43866), (43872, 43880), (43888, 43967), (64256, 64262), (64275, 64279),
      (65313, 65338), (65345, 65370), (66560, 66639), (66736, 66771), (66776, 66811), (66928, 66938),
      (66940, 66954), (66956, 66962), (66964, 66965), (66967, 66977), (66979, 66993), (66995, 67001),
      (67003, 67004), (68736, 68786), (68800, 68850), (71840, 71903), (93760, 93823), (119808, 119892),
      (119894, 119964), (119966, 119967), (119970, 119970), (119973, 119974), (119977, 119980), (119982, 119993),
      (119995, 119995), (119997, 120003), (120005, 120069), (120071, 120074), (120077, 120084), (120086, 120092),
      (120094, 120121), (120123, 120126), (120128, 120132), (120134, 120134), (120138, 120144), (120146, 120485),
      (120488, 120512), (120514, 120538), (120540, 120570), (120572, 120596), (120598, 120628), (120630, 120654),
      (120656, 120686), (120688, 120712), (120714, 120744), (120746, 120770), (120772, 120779), (122624, 122633),
      (122635, 122654), (125184, 125251), (127280, 127305), (127312, 127337), (127344, 127369)
     ]"

definition case_ignorable_ranges :: "(nat \<times> nat) list" where
  "case_ignorable_ranges =
     [
      (39, 39), (46, 46), (58, 58), (94, 94), (96, 96), (168, 168),
      (173, 173), (175, 175), (180, 180), (183, 184), (688, 879), (884, 885),
      (890, 890), (900, 901), (903, 903), (1155, 1161), (1369, 1369), (1375, 1375),
      (1425, 1469), (1471, 1471), (1473, 1474), (1476, 1477), (1479, 1479), (1524, 1524),
      (1536, 1541), (1552, 1562), (1564, 1564), (1600, 1600), (1611, 1631), (1648, 1648),
      (1750, 1757), (1759, 1768), (1770, 1773), (1807, 1807), (1809, 1809), (1840, 1866),
      (1958, 1968), (2027, 2037), (2042, 2042), (2045, 2045), (2070, 2093), (2137, 2139),
      (2184, 2184), (2192, 2193), (2200, 2207), (2249, 2306), (2362, 2362), (2364, 2364),
      (2369, 2376), (2381, 2381), (2385, 2391), (2402, 2403), (2417, 2417), (2433, 2433),
      (2492, 2492), (2497, 2500), (2509, 2509), (2530, 2531), (2558, 2558), (2561, 2562),
      (2620, 2620), (2625, 2626), (2631, 2632), (2635, 2637), (2641, 2641), (2672, 2673),
      (2677, 2677), (2689, 2690), (2748, 2748), (2753, 2757), (2759, 2760), (2765, 2765),
      (2786, 2787), (2810, 2815), (2817, 2817), (2876, 2876), (2879, 2879), (2881, 2884),
      (2893, 2893), (2901, 2902), (2914, 2915), (2946, 2946), (3008, 3008), (3021, 3021),
      (3072, 3072), (3076, 3076), (3132, 3132), (3134, 3136), (3142, 3144), (3146, 3149),
      (3157, 3158), (3170, 3171), (3201, 3201), (3260, 3260), (3263, 3263), (3270, 3270),
      (3276, 3277), (3298, 3299), (3328, 3329), (3387, 3388), (3393, 3396), (3405, 3405),
      (3426, 3427), (3457, 3457), (3530, 3530), (3538, 3540), (3542, 3542), (3633, 3633),
      (3636, 3642), (3654, 3662), (3761, 3761), (3764, 3772), (3782, 3782), (3784, 3789),
      (3864, 3865), (3893, 3893), (3895, 3895), (3897, 3897), (3953, 3966), (3968, 3972),
      (3974, 3975), (3981, 3991), (3993, 4028), (4038, 4038), (4141, 4144), (4146, 4151),
      (4153, 4154), (4157, 4158), (4184, 4185), (4190, 4192), (4209, 4212), (4226, 4226),
      (4229, 4230), (4237, 4237), (4253, 4253), (4348, 4348), (4957, 4959), (5906, 5908),
      (5938, 5939), (5970, 5971), (6002, 6003), (6068, 6069), (6071, 6077), (6086, 6086),
      (6089, 6099), (6103, 6103), (6109, 6109), (6155, 6159), (6211, 6211), (6277, 6278),
      (6313, 6313), (6432, 6434), (6439, 6440), (6450, 6450), (6457, 6459), (6679, 6680),
      (6683, 6683), (6742, 6742), (6744, 6750), (6752, 6752), (6754, 6754), (6757, 6764),
      (6771, 6780), (6783, 6783), (6823, 6823), (6832, 6862), (6912, 6915), (6964, 6964),
      (6966, 6970), (6972, 6972), (6978, 6978), (7019, 7027), (7040, 7041), (7074, 7077),
      (7080, 7081), (7083, 7085), (7142, 7142), (7144, 7145), (7149, 7149), (7151, 7153),
      (7212, 7219), (7222, 7223), (7288, 7293), (7376, 7378), (7380, 7392), (7394, 7400),
      (7405, 7405), (7412, 7412), (7416, 7417), (7468, 7530), (7544, 7544), (7579, 7679),
      (8125, 8125), (8127, 8129), (8141, 8143), (8157, 8159), (8173, 8175), (8189, 8190),
      (8203, 8207), (8216, 8217), (8228, 8228), (8231, 8231), (8234, 8238), (8288, 8292),
      (8294, 8303), (8305, 8305), (8319, 8319), (8336, 8348), (8400, 8432), (11388, 11389),
      (11503, 11505), (11631, 11631), (11647, 11647), (11744, 11775), (11823, 11823), (12293, 12293),
      (12330, 12333), (12337, 12341), (12347, 12347), (12441, 12446), (12540, 12542), (40981, 40981),
      (42232, 42237), (42508, 42508), (42607, 42610), (42612, 42621), (42623, 42623), (42652, 42655),
      (42736, 42737), (42752, 42785), (42864, 42864), (42888, 42890), (42994, 42996), (43000, 43001),
      (43010, 43010), (43014, 43014), (43019, 43019), (43045, 43046), (43052, 43052), (43204, 43205),
      (43232, 43249), (43263, 43263), (43302, 43309), (43335, 43345), (43392, 43394), (43443, 43443),
      (43446, 43449), (43452, 43453), (43471, 43471), (43493, 43494), (43561, 43566), (43569, 43570),
      (43573, 43574), (43587, 43587), (43596, 43596), (43632, 43632), (43644, 43644), (43696, 43696),
      (43698, 43700), (43703, 43704), (43710, 43711), (43713, 43713), (43741, 43741), (43756, 43757),
      (43763, 43764), (43766, 43766), (43867, 43871), (43881, 43883), (44005, 44005), (44008, 44008),
      (44013, 44013), (64286, 64286), (64434, 64450), (65024, 65039), (65043, 65043), (65056, 65071),
      (65106, 65106), (65109, 65109), (65279, 65279), (65287, 65287), (65294, 65294), (65306, 65306),
      (65342, 65342), (65344, 65344), (65392, 65392), (65438, 65439), (65507, 65507), (65529, 65531),
      (66045, 66045), (66272, 66272), (66422, 66426), (67456, 67461), (67463, 67504), (67506, 67514),
      (68097, 68099), (68101, 68102), (68108, 68111), (68152, 68154), (68159, 68159), (68325, 68326),
      (68900, 68903), (69291, 69292), (69446, 69456), (69506, 69509), (69633, 69633), (69688, 69702),
      (69744, 69744), (69747, 69748), (69759, 69761), (69811, 69814), (69817, 69818), (69821, 69821),
      (69826, 69826), (69837, 69837), (69888, 69890), (69927, 69931), (69933, 69940), (70003, 70003),
      (70016, 70017), (70070, 70078), (70089, 70092), (70095, 70095), (70191, 70193), (70196, 70196),
      (70198, 70199), (70206, 70206), (70367, 70367), (70371, 70378), (70400, 70401), (70459, 70460),
      (70464, 70464), (70502, 70508), (70512, 70516), (70712, 70719), (70722, 70724), (70726, 70726),
      (70750, 70750), (70835, 70840), (70842, 70842), (70847, 70848), (70850, 70851), (71090, 71093),
      (71100, 71101), (71103, 71104), (71132, 71133), (71219, 71226), (71229, 71229), (71231, 71232),
      (71339, 71339), (71341, 71341), (71344, 71349), (71351, 71351), (71453, 71455), (71458, 71461),
      (71463, 71467), (71727, 71735), (71737, 71738), (71995, 71996), (71998, 71998), (72003, 72003),
      (72148, 72151), (72154, 72155), (72160, 72160), (72193, 72202), (72243, 72248), (72251, 72254),
      (72263, 72263), (72273, 72278), (72281, 72283), (72330, 72342), (72344, 72345), (72752, 72758),
      (72760, 72765), (72767, 72767), (72850, 72871), (72874, 72880), (72882, 72883), (72885, 72886),
      (73009, 73014), (73018, 73018), (73020, 73021), (73023, 73029), (73031, 73031), (73104, 73105),
      (73109, 73109), (73111, 73111), (73459, 73460), (78896, 78904), (92912, 92916), (92976, 92982),
      (92992, 92995), (94031, 94031), (94095, 94111), (94176, 94177), (94179, 94180), (110576, 110579),
      (110581, 110587), (110589, 110590), (113821, 113822), (113824, 113827), (118528, 118573), (118576, 118598),
      (119143, 119145), (119155, 119170), (119173, 119179), (119210, 119213), (119362, 119364), (121344, 121398),
      (121403, 121452), (121461, 121461), (121476, 121476), (121499, 121503), (121505, 121519), (122880, 122886),
      (122888, 122904), (122907, 122913), (122915, 122916), (122918, 122922), (123184, 123197), (123566, 123566),
      (123628, 123631), (125136, 125142), (125252, 125259), (127995, 127999), (917505, 917505), (917536, 917631),
      (917760, 917999)
     ]"

definition in_ranges :: "(nat \<times> nat) list \<Rightarrow> nat \<Rightarrow> bool" where
  "in_ranges rs c = list_ex (\<lambda>(lo, hi). lo \<le> c \<and> c \<le> hi) rs"

definition lower_cp :: "nat \<Rightarrow> pystr" where
  "lower_cp c =
     (if c < 128 then (if 65 \<le> c \<and> c \<le> 90 then [c + 32] else [c])
      else if c = 304 then [105, 775]
      else (case find (\<lambda>(lo, hi, step, target). lo \<le> c \<and> c \<le> hi \<and> (c - lo) mod step = 0)
                   lower_table of
              Some (lo, hi, step, target) \<Rightarrow> [target + (c - lo)]
            | None \<Rightarrow> [c]))"

definition final_sigma :: "pystr \<Rightarrow> pystr \<Rightarrow> bool" where
  "final_sigma before after =
     (case dropWhile (in_ranges case_ignorable_ranges) before of
        [] \<Rightarrow> False
      | b # bs \<Rightarrow>
          in_ranges cased_ranges b
          \<and> (case dropWhile (in_ranges case_ignorable_ranges) after of
                [] \<Rightarrow> True
              | a # as \<Rightarrow> \<not> in_ranges cased_ranges a))"

text \<open>The loop of \<open>lower\<close>, on the code points already passed (last first) and those to come.\<close>

fun lower_from :: "pystr \<Rightarrow> pystr \<Rightarrow> pystr" where
  "lower_from before [] = []"
| "lower_from before (c # cs) =
     (if c = 931 then [if final_sigma before cs then 962 else 963] else lower_cp c)
     @ lower_from (c # before) cs"

definition lower :: "pystr \<Rightarrow> pystr" where
  "lower s = lower_from [] s"

text \<open>\<open>s.strip()\<close>\<close>

definition strip :: "pystr \<Rightarrow> pystr" where
  "strip s = rev (dropWhile is_space (rev (dropWhile is_space s)))"

text \<open>\<open>s.replace(c, '')\<close> for a one-character \<open>c\<close>\<close>

definition remove_char :: "nat \<Rightarrow> pystr \<Rightarrow> pystr" where
  "remove_char c s = filter (\<lambda>d. d \<noteq> c) s"

text \<open>\<open>s.startswith(p)\<close>\<close>

fun startswith :: "pystr \<Rightarrow> pystr \<Rightarrow> bool" where
  "startswith s [] = True"
| "startswith [] (p # ps) = False"
| "startswith (c # cs) (p # ps) = (c = p \<and> startswith cs ps)"

text \<open>\<open>sub in s\<close>\<close>

fun contains :: "pystr \<Rightarrow> pystr \<Rightarrow> bool" where
  "contains [] sub = (sub = [])"
| "contains (c # cs) sub = (startswith (c # cs) sub \<or> contains cs sub)"

text \<open>\<open>str(n)\<close> for an integer\<close>

fun str_nat :: "nat \<Rightarrow> pystr" where
  "str_nat n = (if n < 10 then [48 + n] else str_nat (n div 10) @ [48 + n mod 10])"

definition str_int :: "int \<Rightarrow> pystr" where
  "str_int i = (if i < 0 then 45 # str_nat (nat (- i)) else str_nat (nat i))"

subsection \<open>The built-in \<open>float(str)\<close>\<close>

text \<open>
  \<open>float\<close> applied to a string first turns every code point from 127 on into ASCII: a
  whitespace into a space, a decimal digit into the ASCII digit of its value; at any
  other one it puts a question mark and drops the rest of the string. It then drops the
  ASCII whitespace (space, tab, line feed, vertical tab, form feed, carriage return) at
  both ends and reads what is left after the
  grammar of the language reference: an optional sign, then \<open>inf\<close>, \<open>infinity\<close> or \<open>nan\<close>
  in any case, or a decimal number with an optional fraction and exponent, where single
  underscores may separate digits. Anything else raises \<open>ValueError\<close>. The value of a
  number is rounded to the nearest double.
\<close>

fun to_ascii :: "pystr \<Rightarrow> pystr" where
  "to_ascii [] = []"
| "to_ascii (c # cs) =
     (if c < 127 then c # to_ascii cs
      else if is_space c then 32 # to_ascii cs
      else (case decimal_of c of Some d \<Rightarrow> (48 + d) # to_ascii cs | None \<Rightarrow> [63]))"

definition c_isspace :: "nat \<Rightarrow> bool" where
  "c_isspace c = (c = 32 \<or> (9 \<le> c \<and> c \<le> 13))"

definition c_strip :: "pystr \<Rightarrow> pystr" where
  "c_strip s = rev (dropWhile c_isspace (rev (dropWhile c_isspace s)))"

definition ascii_lower :: "pystr \<Rightarrow> pystr" where
  "ascii_lower s = map (\<lambda>c. if 65 \<le> c \<and> c \<le> 90 then c + 32 else c) s"

definition is_digit :: "nat \<Rightarrow> bool" where
  "is_digit c = (48 \<le> c \<and> c \<le> 57)"

fun digitpart :: "pystr \<Rightarrow> pystr \<times> pystr" where
  "digitpart [] = ([], [])"
| "digitpart (c # cs) =
     (if is_digit c then
        (case cs of
           us # d # r \<Rightarrow>
             if us = 95 \<and> is_digit d
             then (let (ds, rest) = digitpart (d # r) in (c # ds, rest))
             else (let (ds, rest) = digitpart cs in (c # ds, rest))
         | _ \<Rightarrow> (let (ds, rest) = digitpart cs in (c # ds, rest)))
      else ([], c # cs))"

definition digits_val :: "pystr \<Rightarrow> nat" where
  "digits_val ds = fold (\<lambda>c acc. acc * 10 + (c - 48)) ds 0"

definition split_sign :: "pystr \<Rightarrow> bool \<times> pystr" where
  "split_sign s =
     (case s of
        [] \<Rightarrow> (False, [])
      | c # cs \<Rightarrow> if c = 45 then (True, cs) else if c = 43 then (False, cs) else (False, s))"

definition parse_exponent :: "pystr \<Rightarrow> int option" where
  "parse_exponent s =
     (case s of
        [] \<Rightarrow> Some 0
      | c # cs \<Rightarrow>
          if c = 101 \<or> c = 69 then
            (let (neg, r) = split_sign cs; (ds, rest) = digitpart r
             in if ds = [] \<or> rest \<noteq> [] then None
                else Some (if neg then - int (digits_val ds) else int (digits_val ds)))
          else None)"

definition pow10 :: "int \<Rightarrow> rat" where
  "pow10 e = (if 0 \<le> e then 10 ^ nat e else 1 / 10 ^ nat (- e))"

definition parse_number :: "pystr \<Rightarrow> rat option" where
  "parse_number s =
     (let (ip, r1) = digitpart s;
          frac = (case r1 of
                    [] \<Rightarrow> if ip = [] then None else Some ([], [])
                  | c # r2 \<Rightarrow>
                      if c = 46 then
                        (let (fp, r3) = digitpart r2
                         in if ip = [] \<and> fp = [] then None else Some (fp, r3))
                      else if ip = [] then None else Some ([], r1))
      in case frac of
           None \<Rightarrow> None
         | Some (fp, r3) \<Rightarrow>
             (case parse_exponent r3 of
                None \<Rightarrow> None
              | Some e \<Rightarrow> Some (of_nat (digits_val (ip @ fp)) * pow10 (e - int (length fp)))))"

definition float_str :: "pystr \<Rightarrow> py_error + pyfloat" where
  "float_str s0 =
     (let (neg, body) = split_sign (c_strip (to_ascii s0)); lb = ascii_lower body
      in if lb = u ''inf'' \<or> lb = u ''infinity'' then Inr (if neg then NInf else PInf)
         else if lb = u ''nan'' then Inr NaN
         else (case parse_number body of
                 None \<Rightarrow> Inl ValueError
               | Some r \<Rightarrow> Inr (round_to_double (if neg then - r else r))))"

section \<open>tax\_data.py\<close>

text \<open>
  \<^verbatim>\<open>
  def calculate_sales_tax(amount, tax_rate):
      if amount < 0:
          return 0.00, 0.00
      tax_amount = amount * (tax_rate / 100)
      total_amount = amount + tax_amount
      return round(tax_amount, 2), round(total_amount, 2)
  \<close>
\<close>

definition calculate_sales_tax :: "pyfloat \<Rightarrow> pyfloat \<Rightarrow> pyfloat \<times> pyfloat" where
  "calculate_sales_tax amount tax_rate =
     (if float_lt0 amount then (Fin 0, Fin 0)
      else (let tax_amount = float_mul amount (float_div_100 tax_rate);
                total_amount = float_add amount tax_amount
            in (float_round2 tax_amount, float_round2 total_amount)))"

section \<open>web\_app.py: StreamingCSVProcessor\<close>

text \<open>
  \<^verbatim>\<open>
  def _parse_price(price_str):
      try:
          cleaned = price_str.replace('$', '').replace(',', '').strip()
          return float(cleaned)
      except (ValueError, AttributeError):
          return 0.0
  \<close>
\<close>

definition parse_price :: "pystr \<Rightarrow> py_error + pyfloat" where
  "parse_price price_str =
     (case float_str (strip (remove_char 44 (remove_char 36 price_str))) of
        Inr v \<Rightarrow> Inr v
      | Inl e \<Rightarrow> if e = ValueError \<or> e = AttributeError then Inr (Fin 0) else Inl e)"

subsection \<open>Dictionaries and the catalog\<close>

text \<open>
  A dictionary in insertion order: \<open>d[k] = v\<close> replaces the value of an existing key in
  place and appends a new key; \<open>d.update(new)\<close> does so for every item of \<open>new\<close> in turn;
  \<open>d.get(k)\<close> is \<open>map_of d k\<close>.
\<close>

fun dict_set :: "'k \<Rightarrow> 'v \<Rightarrow> ('k \<times> 'v) list \<Rightarrow> ('k \<times> 'v) list" where
  "dict_set k v [] = [(k, v)]"
| "dict_set k v ((k', v') # d) = (if k' = k then (k, v) # d else (k', v') # dict_set k v d)"

definition dict_update :: "('k \<times> 'v) list \<Rightarrow> ('k \<times> 'v) list \<Rightarrow> ('k \<times> 'v) list" where
  "dict_update d new = foldl (\<lambda>acc (k, v). dict_set k v acc) d new"

text \<open>
  A catalog entry is the dictionary \<open>{'msrp': m}\<close> or \<open>{'msrp': m, 'prepaid': p}\<close> that the
  ingestion writes, or a bare number (the old file format that the accessors still accept).
\<close>

datatype device_data = DeviceData (msrp: pyfloat) (prepaid: "pyfloat option") | OldFormat pyfloat

type_synonym catalog = "(pystr \<times> device_data) list"

text \<open>\<open>device_data.get('msrp', 0) if isinstance(device_data, dict) else device_data\<close>\<close>

fun price_of :: "device_data \<Rightarrow> pyfloat" where
  "price_of (DeviceData m p) = m"
| "price_of (OldFormat m) = m"

subsection \<open>Column detection of the streaming processor\<close>

text \<open>
  \<^verbatim>\<open>
  def _detect_phone_column(fieldnames):
      phone_patterns = ['phone', 'device', 'model', 'name', 'product']
      for field in fieldnames:
          field_lower = str(field).lower().strip()
          if any(pattern in field_lower for pattern in phone_patterns):
              return field
      return fieldnames[1] if len(fieldnames) > 1 else None
  \<close>
  and likewise \<open>_detect_msrp_column\<close> (index 4) and \<open>_detect_prepaid_column\<close> (index 8).
\<close>

definition matches_any :: "pystr list \<Rightarrow> pystr \<Rightarrow> bool" where
  "matches_any patterns field = list_ex (\<lambda>pattern. contains (strip (lower field)) pattern) patterns"

definition detect_column :: "pystr list \<Rightarrow> nat \<Rightarrow> pystr list \<Rightarrow> pystr option" where
  "detect_column patterns fallback fieldnames =
     (case find (matches_any patterns) fieldnames of
        Some field \<Rightarrow> Some field
      | None \<Rightarrow> if length fieldnames > fallback then Some (fieldnames ! fallback) else None)"

definition phone_patterns :: "pystr list" where
  "phone_patterns = [u ''phone'', u ''device'', u ''model'', u ''name'', u ''product'']"

definition msrp_patterns :: "pystr list" where
  "msrp_patterns = [u ''msrp'', u ''price'', u ''cost'', u ''amount'', u ''value'']"

definition prepaid_patterns :: "pystr list" where
  "prepaid_patterns = [u ''prepaid'', u ''prepay'', u ''suggested'']"

definition detect_phone_column :: "pystr list \<Rightarrow> pystr option" where
  "detect_phone_column = detect_column phone_patterns 1"

definition detect_msrp_column :: "pystr list \<Rightarrow> pystr option" where
  "detect_msrp_column = detect_column msrp_patterns 4"

definition detect_prepaid_column :: "pystr list \<Rightarrow> pystr option" where
  "detect_prepaid_column = detect_column prepaid_patterns 8"

text \<open>A column variable in a condition (\<open>if not phone_col\<close>): \<open>None\<close> and \<open>''\<close> are false.\<close>

fun col_truthy :: "pystr option \<Rightarrow> bool" where
  "col_truthy None = False"
| "col_truthy (Some c) = (c \<noteq> [])"

subsection \<open>process\_csv\_stream\<close>

text \<open>
  The file as the \<open>csv\<close> module reads it: opening the file, sniffing the delimiter or
  reading a record may raise (the function then returns a failure whatever was read
  before); otherwise there are the field names of the header (\<open>[]\<close> when the reader has
  none) and the records, each a list of cells.

  \<open>csv.DictReader\<close> skips empty records and turns each other record into a dictionary
  from field name to cell, a later duplicate field name overriding an earlier one, and the
  fields for which a short record has no cell mapped to \<open>None\<close>. (The surplus cells of a long
  record are stored under the key \<open>None\<close>, which no lookup below uses.)
\<close>

type_synonym csv_table = "pystr list \<times> pystr list list"

type_synonym csv_row = "(pystr \<times> pystr option) list"

definition dict_row :: "pystr list \<Rightarrow> pystr list \<Rightarrow> csv_row" where
  "dict_row fieldnames cells =
     dict_update []
       (zip fieldnames (map Some cells @ replicate (length fieldnames - length cells) None))"

text \<open>\<open>str(row.get(col, ''))\<close>\<close>

definition cell_text :: "csv_row \<Rightarrow> pystr \<Rightarrow> pystr" where
  "cell_text row col =
     (case map_of row col of None \<Rightarrow> [] | Some None \<Rightarrow> u ''None'' | Some (Some s) \<Rightarrow> s)"

text \<open>
  \<^verbatim>\<open>
  if prepaid_col and row.get(prepaid_col):
      prepaid_price = _parse_price(str(row.get(prepaid_col, '')).strip())
      if prepaid_price > 0:
          device_data['prepaid'] = prepaid_price
  \<close>
\<close>

definition prepaid_of :: "pystr option \<Rightarrow> csv_row \<Rightarrow> py_error + pyfloat option" where
  "prepaid_of prepaid_col row =
     (case prepaid_col of
        None \<Rightarrow> Inr None
      | Some pc \<Rightarrow>
          if pc \<noteq> [] \<and> (case map_of row pc of Some (Some s) \<Rightarrow> s \<noteq> [] | _ \<Rightarrow> False) then
            (case parse_price (strip (cell_text row pc)) of
               Inl e \<Rightarrow> Inl e
             | Inr prepaid_price \<Rightarrow> Inr (if float_gt0 prepaid_price then Some prepaid_price else None))
          else Inr None)"

text \<open>
  The body of the loop over the records, on the dictionary being built and the two
  counters. An exception in the body is caught there and counts the record as skipped.
  \<^verbatim>\<open>
  phone_name = str(row.get(phone_col, '')).strip()
  msrp_str = str(row.get(msrp_col, '')).strip()
  if not phone_name or not msrp_str:
      skipped_count += 1
      continue
  msrp = StreamingCSVProcessor._parse_price(msrp_str)
  if msrp <= 0:
      skipped_count += 1
      continue
  device_data = {'msrp': msrp}
  ...
  devices[phone_name] = device_data
  processed_count += 1
  \<close>
\<close>

definition process_row ::
  "pystr \<Rightarrow> pystr \<Rightarrow> pystr option \<Rightarrow> csv_row \<Rightarrow> catalog \<times> nat \<times> nat \<Rightarrow> catalog \<times> nat \<times> nat" where
  "process_row phone_col msrp_col prepaid_col row st =
     (case st of (devices, processed_count, skipped_count) \<Rightarrow>
        (let phone_name = strip (cell_text row phone_col);
             msrp_str = strip (cell_text row msrp_col)
         in if phone_name = [] \<or> msrp_str = [] then (devices, processed_count, skipped_count + 1)
            else
              (case parse_price msrp_str of
                 Inl e \<Rightarrow> (devices, processed_count, skipped_count + 1)
               | Inr m \<Rightarrow>
                   if float_le0 m then (devices, processed_count, skipped_count + 1)
                   else
                     (case prepaid_of prepaid_col row of
                        Inl e \<Rightarrow> (devices, processed_count, skipped_count + 1)
                      | Inr p \<Rightarrow>
                          (dict_set phone_name (DeviceData m p) devices,
                           processed_count + 1, skipped_count)))))"

datatype csv_failure = NoColumns "pystr list" | ProcessingError py_error

text \<open>
  The dictionary returned: a failure, or \<open>devices\<close>, \<open>processed_count\<close>,
  \<open>skipped_count\<close>, \<open>phone_column\<close>, \<open>msrp_column\<close> and \<open>prepaid_column\<close>.
\<close>

datatype csv_result =
  CsvFail csv_failure
| CsvOk catalog nat nat pystr pystr "pystr option"

definition process_csv_stream :: "py_error + csv_table \<Rightarrow> csv_result" where
  "process_csv_stream file =
     (case file of
        Inl e \<Rightarrow> CsvFail (ProcessingError e)
      | Inr (fieldnames, records) \<Rightarrow>
          (let phone_col = detect_phone_column fieldnames;
               msrp_col = detect_msrp_column fieldnames;
               prepaid_col = detect_prepaid_column fieldnames
           in if \<not> col_truthy phone_col \<or> \<not> col_truthy msrp_col then CsvFail (NoColumns fieldnames)
              else
                (case foldl (\<lambda>st cells. process_row (the phone_col) (the msrp_col) prepaid_col
                                           (dict_row fieldnames cells) st)
                        ([], 0, 0) (filter (\<lambda>cells. cells \<noteq> []) records) of
                   (devices, processed_count, skipped_count) \<Rightarrow>
                     CsvOk devices processed_count skipped_count
                       (the phone_col) (the msrp_col) prepaid_col)))"

section \<open>web\_app.py: column detection in process\_price\_sheet\<close>

text \<open>
  The first two tiers of the detection that \<open>process_price_sheet\<close> runs on a data frame:
  the guess by position, then the match by name. Column labels are strings, as
  \<open>read_csv\<close> produces them.
  \<^verbatim>\<open>
  columns_list = list(df.columns)
  if len(columns_list) > 1:
      phone_col = columns_list[1]
  if len(columns_list) > 4:
      msrp_col = columns_list[4]
  if len(columns_list) > 8:
      prepaid_col = columns_list[8]
  if not phone_col or not msrp_col or not prepaid_col:
      for col in df.columns:
          col_str = str(col).strip()
          col_lower = col_str.lower()
          if (col_str == 'Phone' or col_lower == 'phone') and not phone_col:
              phone_col = col
      for col in df.columns:
          ...
          if ('ric purchase payment' in col_lower or col_str == 'RIC Purchase Payment') and not msrp_col:
              msrp_col = col
          if ('suggested prepaid' in col_lower or 'prepaid' in col_lower) and not prepaid_col:
              prepaid_col = col
      if not phone_col:
          for col in df.columns:
              ...
              if has_phone_keyword and not has_exclude_keyword:
                  phone_col = col
                  break
      if not msrp_col:
          for col in df.columns:
              col_lower = str(col).lower().strip()
              if any(keyword in col_lower for keyword in price_keywords):
                  msrp_col = col
                  break
  \<close>
\<close>

definition positional_guess :: "pystr list \<Rightarrow> nat \<Rightarrow> pystr option" where
  "positional_guess columns_list i = (if length columns_list > i then Some (columns_list ! i) else None)"

definition is_phone_exact :: "pystr \<Rightarrow> bool" where
  "is_phone_exact col = (let col_str = strip col; col_lower = lower col_str
                         in col_str = u ''Phone'' \<or> col_lower = u ''phone'')"

definition is_ric_payment :: "pystr \<Rightarrow> bool" where
  "is_ric_payment col = (let col_str = strip col; col_lower = lower col_str
                         in contains col_lower (u ''ric purchase payment'') \<or> col_str = u ''RIC Purchase Payment'')"

definition is_prepaid_name :: "pystr \<Rightarrow> bool" where
  "is_prepaid_name col = (let col_str = strip col; col_lower = lower col_str
                          in contains col_lower (u ''suggested prepaid'') \<or> contains col_lower (u ''prepaid''))"

definition phone_name_keywords :: "pystr list" where
  "phone_name_keywords = [u ''phone'', u ''device'', u ''product'', u ''model'', u ''equipment'', u ''item'', u ''name'']"

definition exclude_keywords :: "pystr list" where
  "exclude_keywords = [u ''sap'', u ''code'', u ''id'', u ''number'', u ''sku'', u ''#'']"

definition price_keywords :: "pystr list" where
  "price_keywords = [u ''msrp'', u ''price'', u ''cost'', u ''payment'', u ''amount'', u ''value'', u ''retail'']"

text \<open>One step of a loop \<open>for col in df.columns: if P(col) and not cur: cur = col\<close>.\<close>

definition assign_if_unset :: "(pystr \<Rightarrow> bool) \<Rightarrow> pystr \<Rightarrow> pystr option \<Rightarrow> pystr option" where
  "assign_if_unset P col cur = (if P col \<and> \<not> col_truthy cur then Some col else cur)"

definition position_and_name_tiers ::
  "pystr list \<Rightarrow> pystr option \<times> pystr option \<times> pystr option" where
  "position_and_name_tiers columns_list =
     (let phone_col = positional_guess columns_list 1;
          msrp_col = positional_guess columns_list 4;
          prepaid_col = positional_guess columns_list 8
      in if \<not> col_truthy phone_col \<or> \<not> col_truthy msrp_col \<or> \<not> col_truthy prepaid_col then
           (let phone_col = fold (assign_if_unset is_phone_exact) columns_list phone_col;
                msrp_col = fold (assign_if_unset is_ric_payment) columns_list msrp_col;
                prepaid_col = fold (assign_if_unset is_prepaid_name) columns_list prepaid_col;
                phone_col =
                  (if \<not> col_truthy phone_col then
                     (case find (\<lambda>col. matches_any phone_name_keywords col
                                        \<and> \<not> matches_any exclude_keywords col) columns_list of
                        Some col \<Rightarrow> Some col
                      | None \<Rightarrow> phone_col)
                   else phone_col);
                msrp_col =
                  (if \<not> col_truthy msrp_col then
                     (case find (matches_any price_keywords) columns_list of
                        Some col \<Rightarrow> Some col
                      | None \<Rightarrow> msrp_col)
                   else msrp_col)
            in (phone_col, msrp_col, prepaid_col))
         else (phone_col, msrp_col, prepaid_col))"

section \<open>web\_app.py: OptimizedDeviceCache\<close>

text \<open>
  The fields of the cache object. The two indexes are \<open>defaultdict(list)\<close>; the search
  cache is an \<open>OrderedDict\<close> from the key \<open>f"{query.lower()}:{limit}"\<close> to the result list,
  its first entry the oldest. Times are counted in microseconds.
\<close>

record device_cache =
  cache_devices :: catalog
  device_index :: "(pystr \<times> pystr list) list"
  price_index :: "(pystr \<times> pystr list) list"
  search_cache :: "(pystr \<times> pystr list) list"
  max_cache_size :: nat
  last_modified :: "int option"

text \<open>\<open>OptimizedDeviceCache(max_cache_size)\<close>\<close>

definition new_cache :: "nat \<Rightarrow> device_cache" where
  "new_cache n =
     \<lparr>cache_devices = [], device_index = [], price_index = [], search_cache = [],
      max_cache_size = n, last_modified = None\<rparr>"

text \<open>\<open>index[k].append(v)\<close> on a \<open>defaultdict(list)\<close>\<close>

definition index_append :: "pystr \<Rightarrow> pystr \<Rightarrow> (pystr \<times> pystr list) list \<Rightarrow> (pystr \<times> pystr list) list" where
  "index_append k v idx =
     dict_set k ((case map_of idx k of None \<Rightarrow> [] | Some vs \<Rightarrow> vs) @ [v]) idx"

text \<open>
  \<open>device_name.split()[0].lower() if device_name else ''\<close>: the first run of
  non-whitespace characters; when the name is not empty but has none, \<open>split()\<close> is empty
  and the index raises.
\<close>

definition brand_of :: "pystr \<Rightarrow> py_error + pystr" where
  "brand_of device_name =
     (if device_name = [] then Inr []
      else (let rest = dropWhile is_space device_name
            in if rest = [] then Inl IndexError
               else Inr (lower (takeWhile (\<lambda>c. \<not> is_space c) rest))))"

text \<open>
  \<open>f"{int(price // 100) * 100}-{int(price // 100) * 100 + 99}"\<close>. The floor division of
  an infinity or of a NaN is a NaN, which \<open>int\<close> refuses.
\<close>

definition price_range :: "pyfloat \<Rightarrow> py_error + pystr" where
  "price_range price =
     (case int_of_float (float_floordiv_100 price) of
        Inl e \<Rightarrow> Inl e
      | Inr q \<Rightarrow> Inr (str_int (q * 100) @ u ''-'' @ str_int (q * 100 + 99)))"

text \<open>
  The loop of \<open>_build_indexes\<close> over \<open>self.devices.items()\<close>, on the two indexes; it stops
  at the first exception, with the indexes as far as they were built.
  \<^verbatim>\<open>
  for device_name, device_data in self.devices.items():
      brand = device_name.split()[0].lower() if device_name else ''
      self.device_index[brand].append(device_name)
      price = device_data.get('msrp', 0) if isinstance(device_data, dict) else device_data
      if price:
          price_range = f"{int(price // 100) * 100}-{int(price // 100) * 100 + 99}"
          self.price_index[price_range].append(device_name)
  \<close>
\<close>

fun build_indexes ::
  "catalog \<Rightarrow> (pystr \<times> pystr list) list \<times> (pystr \<times> pystr list) list
     \<Rightarrow> py_error option \<times> (pystr \<times> pystr list) list \<times> (pystr \<times> pystr list) list" where
  "build_indexes [] (bi, pri) = (None, bi, pri)"
| "build_indexes ((device_name, device_data) # rest) (bi, pri) =
     (case brand_of device_name of
        Inl e \<Rightarrow> (Some e, bi, pri)
      | Inr brand \<Rightarrow>
          (let bi' = index_append brand device_name bi; price = price_of device_data
           in if float_truthy price then
                (case price_range price of
                   Inl e \<Rightarrow> (Some e, bi', pri)
                 | Inr key \<Rightarrow> build_indexes rest (bi', index_append key device_name pri))
              else build_indexes rest (bi', pri)))"

text \<open>
  \<^verbatim>\<open>
  def load_devices(self, devices_data):
      with self.cache_lock:
          self.devices = devices_data.copy()
          self._build_indexes()
          self.search_cache.clear()
          self.last_modified = datetime.now()
  \<close>
  The result is the exception raised, if any, and the cache as the call leaves it: when
  the index raises, the devices are already replaced and the search cache is not cleared.
\<close>

definition load_devices :: "device_cache \<Rightarrow> catalog \<Rightarrow> int \<Rightarrow> py_error option \<times> device_cache" where
  "load_devices c devices_data now =
     (case build_indexes devices_data ([], []) of
        (err, bi, pri) \<Rightarrow>
          (let c1 = c\<lparr>cache_devices := devices_data, device_index := bi, price_index := pri\<rparr>
           in case err of
                Some e \<Rightarrow> (Some e, c1)
              | None \<Rightarrow> (None, c1\<lparr>search_cache := [], last_modified := Some now\<rparr>)))"

text \<open>\<open>xs[:limit]\<close>\<close>

definition slice_to :: "int \<Rightarrow> 'a list \<Rightarrow> 'a list" where
  "slice_to limit xs =
     (if 0 \<le> limit then take (nat limit) xs else take (length xs - nat (- limit)) xs)"

text \<open>
  The search loop, on the names still to visit and the results so far:
  \<^verbatim>\<open>
  for device_name in self.devices.keys():
      if query_lower in device_name.lower():
          results.append(device_name)
          if len(results) >= limit:
              break
  \<close>
\<close>

fun search_loop :: "pystr \<Rightarrow> int \<Rightarrow> pystr list \<Rightarrow> pystr list \<Rightarrow> pystr list" where
  "search_loop query_lower limit [] results = results"
| "search_loop query_lower limit (device_name # rest) results =
     (if contains (lower device_name) query_lower then
        (let results' = results @ [device_name]
         in if limit \<le> int (length results') then results'
            else search_loop query_lower limit rest results')
      else search_loop query_lower limit rest results)"

definition cache_key :: "pystr \<Rightarrow> int \<Rightarrow> pystr" where
  "cache_key query limit = lower query @ u '':'' @ str_int limit"

text \<open>\<open>od.move_to_end(k)\<close> for a key that is present\<close>

definition move_to_end :: "pystr \<Rightarrow> (pystr \<times> 'v) list \<Rightarrow> (pystr \<times> 'v) list" where
  "move_to_end k od =
     (case map_of od k of
        None \<Rightarrow> od
      | Some v \<Rightarrow> filter (\<lambda>kv. fst kv \<noteq> k) od @ [(k, v)])"

text \<open>
  \<^verbatim>\<open>
  def search_devices(self, query, limit=50):
      if not query:
          return list(self.devices.keys())[:limit]
      cache_key = f"{query.lower()}:{limit}"
      with self.cache_lock:
          if cache_key in self.search_cache:
              self.search_cache.move_to_end(cache_key)
              return self.search_cache[cache_key]
      query_lower = query.lower()
      results = []
      for device_name in self.devices.keys(): ...
      with self.cache_lock:
          if len(self.search_cache) >= self.max_cache_size:
              self.search_cache.popitem(last=False)
          self.search_cache[cache_key] = results
      return results
  \<close>
  \<open>popitem\<close> on an empty dictionary raises \<open>KeyError\<close>.
\<close>

definition search_devices :: "device_cache \<Rightarrow> pystr \<Rightarrow> int \<Rightarrow> py_error + pystr list \<times> device_cache" where
  "search_devices c query limit =
     (if query = [] then Inr (slice_to limit (map fst (cache_devices c)), c)
      else
        (let key = cache_key query limit
         in case map_of (search_cache c) key of
              Some cached \<Rightarrow> Inr (cached, c\<lparr>search_cache := move_to_end key (search_cache c)\<rparr>)
            | None \<Rightarrow>
                (let results = search_loop (lower query) limit (map fst (cache_devices c)) []
                 in if max_cache_size c \<le> length (search_cache c) then
                      (case search_cache c of
                         [] \<Rightarrow> Inl KeyError
                       | oldest # newer \<Rightarrow>
                           Inr (results, c\<lparr>search_cache := dict_set key results newer\<rparr>))
                    else Inr (results, c\<lparr>search_cache := dict_set key results (search_cache c)\<rparr>))))"

section \<open>web\_app.py: WebSalesTaxCalculator\<close>

text \<open>
  The state of the calculator: the catalog in memory (\<open>self.devices\<close>), the device cache,
  and the three files it owns, each \<open>None\<close> while it does not exist. The catalog file and
  the last-update file hold JSON, represented by the value that \<open>json.load\<close> gives back;
  the cache file holds the downloaded bytes. Writing a file is taken to succeed.
\<close>

text \<open>
  A time stamp as \<open>last_update.json\<close> stores it, by what \<open>datetime.fromisoformat\<close> makes of
  the string: \<open>Stamp t\<close> for the time \<open>t\<close> (in microseconds), \<open>BadStamp\<close> when it raises.
  A field that is missing, null or the empty string is \<open>None\<close>.
\<close>

datatype stamp = Stamp int | BadStamp

record update_info =
  info_last_check :: "stamp option"
  info_last_update :: "stamp option"
  info_size :: "pystr option"
  info_devices_count :: nat
  info_devices_processed :: nat
  info_devices_skipped :: nat

record calculator =
  self_devices :: catalog
  self_device_cache :: device_cache
  devices_file :: "catalog option"
  cache_file :: "bytes option"
  last_update_file :: "update_info option"

datatype file_kind = Csv | Excel | Other

text \<open>
  What \<open>process_price_sheet\<close> does with a data frame, from \<open>pd.read_csv\<close> or \<open>pd.read_excel\<close>
  down to the end of the loop over the rows, reads no state of the calculator and changes
  none: it is a function of the file, with three outcomes. An exception is raised; or no
  device or price column is found; or the loop ends with \<open>new_devices\<close>, \<open>processed_count\<close>,
  \<open>skipped_count\<close>, \<open>phone_col\<close> and \<open>msrp_col\<close>.
\<close>

datatype frame_outcome =
  FrameRaised py_error
| FrameNoColumns
| FrameRows catalog nat nat pystr pystr

text \<open>
  The world outside the calculator during one call: the answer to the \<open>HEAD\<close> request
  (an exception, or the status code and the \<open>content-length\<close> header), the answer to the
  \<open>GET\<close> request (an exception, or the status code and the body), the clock, and what the
  \<open>csv\<close> module and pandas make of a file with a given content.
\<close>

record world =
  head_response :: "py_error + nat \<times> pystr option"
  get_response :: "py_error + nat \<times> bytes"
  clock :: int
  csv_module :: "bytes \<Rightarrow> py_error + csv_table"
  pandas_module :: "file_kind \<Rightarrow> bytes \<Rightarrow> frame_outcome"

text \<open>
  \<^verbatim>\<open>
  def save_devices(self):
      try:
          with open(self.devices_file, 'w') as f:
              json.dump(self.devices, f, indent=2)
          self.device_cache.load_devices(self.devices)
          return True
      except Exception as e:
          return False
  \<close>
\<close>

definition save_devices :: "world \<Rightarrow> calculator \<Rightarrow> bool \<times> calculator" where
  "save_devices w s =
     (let s1 = s\<lparr>devices_file := Some (self_devices s)\<rparr>
      in case load_devices (self_device_cache s1) (self_devices s1) (clock w) of
           (err, c) \<Rightarrow> (err = None, s1\<lparr>self_device_cache := c\<rparr>))"

text \<open>
  The dictionary that \<open>process_price_sheet\<close> returns: a failure, or a success with
  \<open>devices_added\<close> and, where the dictionary has these keys, \<open>processed_count\<close> and
  \<open>skipped_count\<close> (the success of the streaming path has neither).
\<close>

datatype sheet_result = SheetFail | SheetOk nat "nat option" "nat option"

text \<open>The end of \<open>process_price_sheet\<close> on a data frame, from \<open>if new_devices:\<close> on.\<close>

definition merge_frame :: "world \<Rightarrow> calculator \<Rightarrow> frame_outcome \<Rightarrow> sheet_result \<times> calculator" where
  "merge_frame w s outcome =
     (case outcome of
        FrameRaised e \<Rightarrow> (SheetFail, s)
      | FrameNoColumns \<Rightarrow> (SheetFail, s)
      | FrameRows new_devices processed_count skipped_count phone_col msrp_col \<Rightarrow>
          if new_devices \<noteq> [] then
            (let s1 = s\<lparr>self_devices := dict_update (self_devices s) new_devices\<rparr>;
                 s2 = snd (save_devices w s1)
             in (SheetOk (length new_devices) (Some processed_count) (Some skipped_count), s2))
          else (SheetFail, s))"

text \<open>
  \<^verbatim>\<open>
  def process_price_sheet(self, file_path):
      try:
          if file_path.endswith('.csv'):
              result = StreamingCSVProcessor.process_csv_stream(file_path)
              if result['success']:
                  new_devices = result['devices']
                  self.devices.update(new_devices)
                  self.save_devices()
                  return {'success': True, 'message': ..., 'devices_added': len(new_devices),
                          'phone_column': ..., 'msrp_column': ..., 'prepaid_column': ...}
              else:
                  df = pd.read_csv(file_path)
          elif file_path.endswith(('.xlsx', '.xls')):
              df = pd.read_excel(file_path)
          else:
              raise ValueError("Unsupported file format")
          ...
      except Exception as e:
          return {'success': False, 'error': ...}
  \<close>
  The file is given by the kind of its name and by its content.
\<close>

definition process_price_sheet ::
  "world \<Rightarrow> calculator \<Rightarrow> file_kind \<Rightarrow> bytes \<Rightarrow> sheet_result \<times> calculator" where
  "process_price_sheet w s kind content =
     (case kind of
        Csv \<Rightarrow>
          (case process_csv_stream (csv_module w content) of
             CsvOk new_devices processed_count skipped_count phone_col msrp_col prepaid_col \<Rightarrow>
               (let s1 = s\<lparr>self_devices := dict_update (self_devices s) new_devices\<rparr>;
                    s2 = snd (save_devices w s1)
                in (SheetOk (length new_devices) None None, s2))
           | CsvFail f \<Rightarrow> merge_frame w s (pandas_module w Csv content))
      | Excel \<Rightarrow> merge_frame w s (pandas_module w Excel content)
      | Other \<Rightarrow> (SheetFail, s))"

text \<open>
  \<^verbatim>\<open>
  def load_last_update_info(self):
      try:
          if os.path.exists(self.last_update_file):
              with open(self.last_update_file, 'r') as f:
                  return json.load(f)
      except Exception as e: ...
      return {}
  \<close>
\<close>

definition empty_info :: update_info where
  "empty_info =
     \<lparr>info_last_check = None, info_last_update = None, info_size = None,
      info_devices_count = 0, info_devices_processed = 0, info_devices_skipped = 0\<rparr>"

definition load_last_update_info :: "calculator \<Rightarrow> update_info" where
  "load_last_update_info s = (case last_update_file s of None \<Rightarrow> empty_info | Some info \<Rightarrow> info)"

definition save_last_update_info :: "calculator \<Rightarrow> update_info \<Rightarrow> calculator" where
  "save_last_update_info s info = s\<lparr>last_update_file := Some info\<rparr>"

text \<open>
  \<^verbatim>\<open>
  def download_and_process_google_sheets(self):
      try:
          response = requests.get(self.google_sheets_url, timeout=30, allow_redirects=True)
          if response.status_code != 200:
              return False
          with open(self.cache_file, 'wb') as f:
              f.write(response.content)
          result = self.process_price_sheet(self.cache_file)
          if result['success']:
              actual_device_count = len(self.devices)
              update_info = {
                  'last_check': datetime.now().isoformat(),
                  'last_update': datetime.now().isoformat(),
                  'size': str(len(response.content)),
                  'devices_count': actual_device_count,
                  'devices_processed': result.get('processed_count', 0),
                  'devices_skipped': result.get('skipped_count', 0)
              }
              self.save_last_update_info(update_info)
              return True
          else:
              return False
      except Exception as e:
          return False
  \<close>
\<close>

definition download_and_process_google_sheets :: "world \<Rightarrow> calculator \<Rightarrow> bool \<times> calculator" where
  "download_and_process_google_sheets w s =
     (case get_response w of
        Inl e \<Rightarrow> (False, s)
      | Inr (status_code, content) \<Rightarrow>
          if status_code \<noteq> 200 then (False, s)
          else
            (let s1 = s\<lparr>cache_file := Some content\<rparr>
             in case process_price_sheet w s1 Csv content of
                  (SheetOk devices_added processed_count skipped_count, s2) \<Rightarrow>
                    (True,
                     save_last_update_info s2
                       \<lparr>info_last_check = Some (Stamp (clock w)),
                        info_last_update = Some (Stamp (clock w)),
                        info_size = Some (str_int (int (length content))),
                        info_devices_count = length (self_devices s2),
                        info_devices_processed = (case processed_count of None \<Rightarrow> 0 | Some n \<Rightarrow> n),
                        info_devices_skipped = (case skipped_count of None \<Rightarrow> 0 | Some n \<Rightarrow> n)\<rparr>)
                | (SheetFail, s2) \<Rightarrow> (False, s2)))"

text \<open>
  The staleness decision of \<open>check_and_update_from_google_sheets\<close>, on whether the cache
  file exists, the \<open>content-length\<close> header, the last-update record and the clock:
  \<^verbatim>\<open>
  should_update = False
  if not os.path.exists(self.cache_file):
      should_update = True
  elif remote_size and last_update_info.get('size') != remote_size:
      should_update = True
  elif not last_update_info.get('last_check'):
      should_update = True
  else:
      last_check = datetime.fromisoformat(last_update_info['last_check'])
      if (datetime.now() - last_check).total_seconds() > 3600:  # 1 hour
          should_update = True
  \<close>
\<close>

definition should_update :: "bool \<Rightarrow> pystr option \<Rightarrow> update_info \<Rightarrow> int \<Rightarrow> py_error + bool" where
  "should_update cache_exists remote_size last_update_info now =
     (if \<not> cache_exists then Inr True
      else if col_truthy remote_size \<and> info_size last_update_info \<noteq> remote_size then Inr True
      else
        (case info_last_check last_update_info of
           None \<Rightarrow> Inr True
         | Some BadStamp \<Rightarrow> Inl ValueError
         | Some (Stamp last_check) \<Rightarrow> Inr (3600 * 1000000 < now - last_check)))"

text \<open>
  \<^verbatim>\<open>
  def check_and_update_from_google_sheets(self):
      try:
          response = requests.head(self.google_sheets_url, timeout=10, allow_redirects=True)
          if response.status_code != 200:
              return False
          remote_size = response.headers.get('content-length')
          last_update_info = self.load_last_update_info()
          ...
          if should_update:
              return self.download_and_process_google_sheets()
          else:
              return True
      except Exception as e:
          return False
  \<close>
\<close>

definition check_and_update_from_google_sheets :: "world \<Rightarrow> calculator \<Rightarrow> bool \<times> calculator" where
  "check_and_update_from_google_sheets w s =
     (case head_response w of
        Inl e \<Rightarrow> (False, s)
      | Inr (status_code, remote_size) \<Rightarrow>
          if status_code \<noteq> 200 then (False, s)
          else
            (case should_update (cache_file s \<noteq> None) remote_size (load_last_update_info s) (clock w) of
               Inl e \<Rightarrow> (False, s)
             | Inr True \<Rightarrow> download_and_process_google_sheets w s
             | Inr False \<Rightarrow> (True, s)))"

subsection \<open>A world for the examples\<close>

text \<open>
  Comma-separated text without quotes, as the \<open>csv\<close> module reads it once the sniffer has
  settled on the comma: one record per line, an empty line giving the empty record, the
  first record the header. The empty file gives the sniffer no delimiter to find, and it
  raises. The payloads of the examples are ASCII, where the bytes of the file are the code
  points of its text.
\<close>

fun split_on :: "nat \<Rightarrow> nat list \<Rightarrow> nat list list" where
  "split_on sep [] = [[]]"
| "split_on sep (c # cs) =
     (if c = sep then [] # split_on sep cs
      else (case split_on sep cs of [] \<Rightarrow> [[c]] | x # xs \<Rightarrow> (c # x) # xs))"

definition comma_reader :: "bytes \<Rightarrow> py_error + csv_table" where
  "comma_reader content =
     (if content = [] then Inl CsvError
      else
        (let ls = split_on 10 content;
             ls = (if last ls = [] then butlast ls else ls);
             records = map (\<lambda>l. if l = [] then [] else split_on 44 l) ls
         in case records of
              [] \<Rightarrow> Inr ([], [])
            | header # rest \<Rightarrow> Inr (header, rest)))"

text \<open>
  A calculator that has just been constructed on an empty folder, and a world whose
  server answers every request with the given body. In the examples pandas is reached
  only for the empty file, on which \<open>read_csv\<close> raises (\<open>EmptyDataError\<close>, a \<open>ValueError\<close>).
\<close>

definition new_calculator :: calculator where
  "new_calculator =
     \<lparr>self_devices = [], self_device_cache = new_cache 2000, devices_file = None,
      cache_file = None, last_update_file = None\<rparr>"

text \<open>A payload of one record whose price cell reads \<open>nan\<close>.\<close>

definition nan_payload :: bytes where
  "nan_payload = u ''Phone,MSRP'' @ [10] @ u ''Galaxy,nan''"

text \<open>A payload of one record with an ordinary price.\<close>

definition price_payload :: bytes where
  "price_payload = u ''Phone,MSRP'' @ [10] @ u ''Pixel 8,$549.00''"

definition serving :: "bytes \<Rightarrow> int \<Rightarrow> world" where
  "serving body now =
     \<lparr>head_response = Inr (200, Some (str_int (int (length body)))),
      get_response = Inr (200, body),
      clock = now,
      csv_module = comma_reader,
      pandas_module = (\<lambda>kind content. FrameRaised ValueError)\<rparr>"

section \<open>Auxiliary facts\<close>

subsection \<open>Floats\<close>

text \<open>Rules that let the simplifier compute the nearest double of a literal.\<close>

lemma binade_numeral:
  "r \<noteq> 0 \<Longrightarrow>
   binade (numeral k) r =
     (if 2 \<le> r then binade (pred_numeral k) (r / 2) + 1
      else if r < 1 then binade (pred_numeral k) (r * 2) - 1
      else 0)"
  by (simp add: numeral_eq_Suc)

lemma binade_zero: "binade n 0 = - int n"
  by (induction n) simp_all

lemma floor_rat_numeral: "\<lfloor>(numeral a :: rat) / numeral b\<rfloor> = (numeral a :: int) div numeral b"
  using floor_divide_of_int_eq [of "numeral a" "numeral b", where ?'a = rat] by simp

lemma floor_rat_neg_numeral:
  "\<lfloor>- (numeral a :: rat) / numeral b\<rfloor> = (- numeral a :: int) div numeral b"
  using floor_divide_of_int_eq [of "- numeral a" "numeral b", where ?'a = rat] by simp

lemmas float_eval =
  round_to_double_def overflows_def nearest_def mantissa_def quantum_def binade_numeral
  binade_zero round_half_even_def round2_def pow2_def fmod_100_def snap_def ceiling_def
  floor_rat_numeral floor_rat_neg_numeral

lemma float_str_error: "float_str s = Inl e \<Longrightarrow> e = ValueError"
  by (auto simp: float_str_def Let_def split: prod.splits if_splits option.splits)

lemmas price_eval =
  float_str_def strip_def remove_char_def is_space_def is_digit_def digits_val_def
  split_sign_def parse_exponent_def parse_number_def pow10_def c_strip_def c_isspace_def
  ascii_lower_def Let_def float_eval

lemmas lower_eval = lower_def lower_cp_def

lemma remove_chars_filter:
  "remove_char 44 (remove_char 36 s) = filter (\<lambda>c. c \<noteq> 36 \<and> c \<noteq> 44) s"
  by (induction s) (auto simp: remove_char_def)

subsection \<open>Ingestion of delimited text\<close>

lemma parse_price_total: "\<exists>v. parse_price s = Inr v"
  unfolding parse_price_def by (auto split: sum.splits dest: float_str_error)

lemma parse_price_empty: "parse_price [] = Inr (Fin 0)"
  by (simp add: parse_price_def price_eval)

lemma prepaid_of_total: "\<exists>p. prepaid_of prepaid_col row = Inr p"
proof (cases prepaid_col)
  case None
  then show ?thesis by (simp add: prepaid_of_def)
next
  case (Some pc)
  obtain v where "parse_price (strip (cell_text row pc)) = Inr v"
    using parse_price_total by blast
  with Some show ?thesis by (simp add: prepaid_of_def)
qed

lemmas csv_eval =
  process_csv_stream_def detect_phone_column_def detect_msrp_column_def
  detect_prepaid_column_def detect_column_def matches_any_def phone_patterns_def
  msrp_patterns_def prepaid_patterns_def dict_row_def dict_update_def process_row_def
  cell_text_def prepaid_of_def parse_price_def lower_eval

subsection \<open>Column detection\<close>

lemma fold_assign_if_unset_set:
  "col_truthy cur \<Longrightarrow> fold (assign_if_unset P) cols cur = cur"
  by (induction cols) (auto simp: assign_if_unset_def)

lemma not_is_phone_exact_Nil: "\<not> is_phone_exact []"
  by (simp add: is_phone_exact_def strip_def lower_def)

lemma not_is_ric_payment_Nil: "\<not> is_ric_payment []"
  by (simp add: is_ric_payment_def strip_def lower_def)

lemma not_is_prepaid_name_Nil: "\<not> is_prepaid_name []"
  by (simp add: is_prepaid_name_def strip_def lower_def)

lemma fold_assign_if_unset_find:
  assumes "\<not> P []"
  shows "fold (assign_if_unset P) cols None = find P cols"
proof (induction cols)
  case Nil
  show ?case by simp
next
  case (Cons c cs)
  show ?case
  proof (cases "P c")
    case True
    with assms have "c \<noteq> []" by auto
    then have "col_truthy (Some c)" by simp
    then have "fold (assign_if_unset P) cs (Some c) = Some c"
      by (rule fold_assign_if_unset_set)
    moreover from True have "assign_if_unset P c None = Some c"
      by (simp add: assign_if_unset_def)
    ultimately show ?thesis using True by simp
  next
    case False
    then have "assign_if_unset P c None = None"
      by (simp add: assign_if_unset_def)
    with Cons False show ?thesis by simp
  qed
qed

lemma find_truthy:
  assumes "\<not> P []"
  shows "col_truthy (find P cols) \<longleftrightarrow> find P cols \<noteq> None"
proof (cases "find P cols")
  case None
  then show ?thesis by simp
next
  case (Some c)
  then have "P c" by (auto simp: find_Some_iff)
  with assms have "c \<noteq> []" by auto
  with Some show ?thesis by simp
qed

lemma tiers_phone_by_position:
  assumes "1 < length cols" and "cols ! 1 \<noteq> []"
  shows "fst (position_and_name_tiers cols) = Some (cols ! 1)"
  using assms
  by (simp add: position_and_name_tiers_def positional_guess_def Let_def fold_assign_if_unset_set)

lemma tiers_msrp_by_position:
  assumes "4 < length cols" and "cols ! 4 \<noteq> []"
  shows "fst (snd (position_and_name_tiers cols)) = Some (cols ! 4)"
  using assms
  by (simp add: position_and_name_tiers_def positional_guess_def Let_def fold_assign_if_unset_set)

lemma tiers_prepaid_by_position:
  assumes "8 < length cols" and "cols ! 8 \<noteq> []"
  shows "snd (snd (position_and_name_tiers cols)) = Some (cols ! 8)"
  using assms
  by (simp add: position_and_name_tiers_def positional_guess_def Let_def fold_assign_if_unset_set)

lemma tiers_phone_by_name:
  assumes "length cols \<le> 1"
  shows "fst (position_and_name_tiers cols) =
           (case find is_phone_exact cols of
              Some col \<Rightarrow> Some col
            | None \<Rightarrow> find (\<lambda>col. matches_any phone_name_keywords col
                                  \<and> \<not> matches_any exclude_keywords col) cols)"
  using assms find_truthy [of is_phone_exact cols]
    fold_assign_if_unset_find [of is_phone_exact cols]
  by (auto simp: position_and_name_tiers_def positional_guess_def Let_def
        not_is_phone_exact_Nil split: option.splits)

lemma tiers_msrp_by_name:
  assumes "length cols \<le> 4"
  shows "fst (snd (position_and_name_tiers cols)) =
           (case find is_ric_payment cols of
              Some col \<Rightarrow> Some col
            | None \<Rightarrow> find (matches_any price_keywords) cols)"
  using assms find_truthy [of is_ric_payment cols]
    fold_assign_if_unset_find [of is_ric_payment cols]
  by (auto simp: position_and_name_tiers_def positional_guess_def Let_def
        not_is_ric_payment_Nil split: option.splits)

lemma tiers_prepaid_by_name:
  assumes "length cols \<le> 8"
  shows "snd (snd (position_and_name_tiers cols)) = find is_prepaid_name cols"
  using assms fold_assign_if_unset_find [of is_prepaid_name cols]
  by (auto simp: position_and_name_tiers_def positional_guess_def Let_def
        not_is_prepaid_name_Nil)

subsection \<open>Dictionaries\<close>

lemma map_of_dict_set: "map_of (dict_set k v d) = (map_of d)(k \<mapsto> v)"
  by (induction d) (auto simp: fun_eq_iff)

lemma dict_set_new_key: "map_of d k = None \<Longrightarrow> dict_set k v d = d @ [(k, v)]"
  by (induction d) (auto split: if_splits)

lemma map_of_dict_update:
  "map_of (dict_update d new) k =
     (case map_of (rev new) k of Some v \<Rightarrow> Some v | None \<Rightarrow> map_of d k)"
proof (induction new arbitrary: d)
  case Nil
  show ?case by (simp add: dict_update_def)
next
  case (Cons x new)
  obtain a b where x: "x = (a, b)" by (cases x)
  have "map_of (dict_update d (x # new)) k = map_of (dict_update (dict_set a b d) new) k"
    by (simp add: dict_update_def x)
  also have "\<dots> = (case map_of (rev new) k of
                      Some v \<Rightarrow> Some v
                    | None \<Rightarrow> map_of (dict_set a b d) k)"
    by (rule Cons.IH)
  finally show ?case
    by (auto simp: x map_of_dict_set map_add_def split: option.splits)
qed

lemma map_of_rev_distinct: "distinct (map fst xs) \<Longrightarrow> map_of (rev xs) = map_of xs"
  by (rule map_of_inject_set [THEN iffD2]) (simp_all add: rev_map [symmetric])

subsection \<open>The search cache\<close>

lemma map_of_filter_other: "map_of (filter (\<lambda>kv. fst kv \<noteq> k) od) k = None"
  by (induction od) auto

lemma map_of_move_to_end:
  "map_of od k = Some v \<Longrightarrow> map_of (move_to_end k od) k = Some v"
  by (simp add: move_to_end_def map_add_def map_of_filter_other)

lemma last_move_to_end:
  "map_of od k = Some v \<Longrightarrow> last (move_to_end k od) = (k, v)"
  by (simp add: move_to_end_def)

subsection \<open>Building the indexes\<close>

lemma brand_of_ok:
  "\<exists>ch\<in>set device_name. \<not> is_space ch \<Longrightarrow> \<exists>b. brand_of device_name = Inr b"
  by (auto simp: brand_of_def Let_def)

lemma brand_of_whitespace:
  "device_name \<noteq> [] \<Longrightarrow> \<forall>ch\<in>set device_name. is_space ch \<Longrightarrow> brand_of device_name = Inl IndexError"
  by (auto simp: brand_of_def Let_def)

lemma price_range_finite: "\<exists>key. price_range (Fin r) = Inr key"
  by (simp add: price_range_def)

lemma build_indexes_ok:
  assumes "\<forall>(device_name, device_data) \<in> set devs.
             (\<exists>ch\<in>set device_name. \<not> is_space ch) \<and> (\<exists>r. price_of device_data = Fin r)"
  shows "fst (build_indexes devs (bi, pri)) = None"
  using assms
proof (induction devs arbitrary: bi pri)
  case Nil
  show ?case by simp
next
  case (Cons x devs)
  obtain device_name device_data where x: "x = (device_name, device_data)" by (cases x)
  from Cons.prems x obtain b r where b: "brand_of device_name = Inr b"
    and r: "price_of device_data = Fin r"
    using brand_of_ok by fastforce
  from Cons.prems have rest: "\<forall>(device_name, device_data) \<in> set devs.
             (\<exists>ch\<in>set device_name. \<not> is_space ch) \<and> (\<exists>r. price_of device_data = Fin r)"
    by simp
  obtain key where key: "price_range (Fin r) = Inr key"
    using price_range_finite by blast
  show ?case
    by (simp add: x b r key Let_def Cons.IH [OF rest])
qed

lemma build_indexes_whitespace_key:
  assumes "(device_name, device_data) \<in> set devs"
    and "device_name \<noteq> []" and "\<forall>ch\<in>set device_name. is_space ch"
  shows "fst (build_indexes devs (bi, pri)) \<noteq> None"
  using assms(1)
proof (induction devs arbitrary: bi pri)
  case Nil
  then show ?case by simp
next
  case (Cons x devs)
  obtain n d where x: "x = (n, d)" by (cases x)
  show ?case
  proof (cases "x = (device_name, device_data)")
    case True
    with x assms(2,3) show ?thesis by (simp add: brand_of_whitespace)
  next
    case False
    with Cons.prems have "(device_name, device_data) \<in> set devs" by simp
    then have "\<And>bi pri. fst (build_indexes devs (bi, pri)) \<noteq> None"
      by (rule Cons.IH)
    then show ?thesis
      by (auto simp: x Let_def split: sum.splits)
  qed
qed

subsection \<open>The calculator\<close>

lemma self_devices_save_devices: "self_devices (snd (save_devices w s)) = self_devices s"
  by (simp add: save_devices_def Let_def split: prod.splits)

lemma merge_frame_fail: "fst (merge_frame w s outcome) = SheetFail \<Longrightarrow> snd (merge_frame w s outcome) = s"
  by (cases outcome) (auto simp: merge_frame_def Let_def split: if_splits)

lemma process_price_sheet_fail:
  "fst (process_price_sheet w s kind content) = SheetFail \<Longrightarrow>
   snd (process_price_sheet w s kind content) = s"
  by (cases kind)
     (auto simp: process_price_sheet_def Let_def merge_frame_fail split: csv_result.splits)

lemma keys_dict_set:
  "map fst (dict_set k v d) = (if k \<in> set (map fst d) then map fst d else map fst d @ [k])"
  by (induction d) force+

lemma distinct_dict_set: "distinct (map fst d) \<Longrightarrow> distinct (map fst (dict_set k v d))"
  by (simp add: keys_dict_set)

lemma process_row_distinct:
  "distinct (map fst (fst st)) \<Longrightarrow>
   distinct (map fst (fst (process_row phone_col msrp_col prepaid_col row st)))"
  by (cases st)
     (auto simp: process_row_def Let_def distinct_dict_set split: sum.splits)

lemma foldl_process_row_distinct:
  "distinct (map fst (fst st)) \<Longrightarrow>
   distinct (map fst (fst (foldl (\<lambda>st cells. process_row pc mc ppc (mk cells) st) st records)))"
  by (induction records arbitrary: st) (simp_all add: process_row_distinct)

lemma process_csv_stream_distinct:
  assumes "process_csv_stream src = CsvOk new p sk pc mc ppc"
  shows "distinct (map fst new)"
proof (cases src)
  case (Inl e)
  with assms show ?thesis by (simp add: process_csv_stream_def)
next
  case (Inr table)
  obtain fieldnames records where table: "table = (fieldnames, records)" by (cases table)
  let ?st = "foldl (\<lambda>st cells. process_row (the (detect_phone_column fieldnames))
                 (the (detect_msrp_column fieldnames)) (detect_prepaid_column fieldnames)
                 (dict_row fieldnames cells) st)
               ([], 0, 0) (filter (\<lambda>cells. cells \<noteq> []) records)"
  have "distinct (map fst (fst ?st))"
    by (rule foldl_process_row_distinct) simp
  moreover from assms Inr table have "new = fst ?st"
    by (auto simp: process_csv_stream_def Let_def split: if_splits prod.splits)
  ultimately show ?thesis by simp
qed

section \<open>The claims\<close>

text \<open>
  Claim C3, as amended. For an amount that is not negative, \<open>calculate_sales_tax\<close> returns
  the tax \<open>round(amount * (rate / 100), 2)\<close> and the total
  \<open>round(amount + amount * (rate / 100), 2)\<close>, every operation being the one of the doubles:
  the rate is divided by 100 before it is multiplied by the amount, and the total is
  rounded from the unrounded tax, not from the rounded tax that is returned. For a negative
  amount the result is \<open>(0.0, 0.0)\<close>. The result is a function of the two inputs, so
  calling it again on the same inputs gives the same pair. At 100 and 6.25 the result is
  \<open>(6.25, 106.25)\<close>; at 70 and 7.25 it is \<open>(5.07, 75.08)\<close>, the doubles nearest to these.
\<close>

theorem calculate_sales_tax_rounds:
  "(\<not> float_lt0 amount \<longrightarrow>
      calculate_sales_tax amount rate =
        (float_round2 (float_mul amount (float_div_100 rate)),
         float_round2 (float_add amount (float_mul amount (float_div_100 rate)))))
   \<and> (float_lt0 amount \<longrightarrow> calculate_sales_tax amount rate = (Fin 0, Fin 0))
   \<and> calculate_sales_tax (Fin 100) (Fin (25 / 4)) = (Fin (25 / 4), Fin (425 / 4))
   \<and> calculate_sales_tax (Fin 70) (Fin (29 / 4))
       = (round_to_double (507 / 100), round_to_double (7508 / 100))"
proof (intro conjI impI)
  show "calculate_sales_tax (Fin 100) (Fin (25 / 4)) = (Fin (25 / 4), Fin (425 / 4))"
    by (simp add: calculate_sales_tax_def float_mul_def float_add_def float_eval)
  show "calculate_sales_tax (Fin 70) (Fin (29 / 4))
       = (round_to_double (507 / 100), round_to_double (7508 / 100))"
    by (simp add: calculate_sales_tax_def float_mul_def float_add_def float_eval)
qed (simp_all add: calculate_sales_tax_def Let_def)

theorem calculate_sales_tax_rounds_witness:
  "calculate_sales_tax (Fin 20) (Fin 5) = (Fin 1, Fin 21)
   \<and> calculate_sales_tax (Fin (- 20)) (Fin 5) = (Fin 0, Fin 0)
   \<and> calculate_sales_tax NaN (Fin 5) = (NaN, NaN)"
  using calculate_sales_tax_rounds [of "Fin 20" "Fin 5"]
    calculate_sales_tax_rounds [of "Fin (- 20)" "Fin 5"]
    calculate_sales_tax_rounds [of NaN "Fin 5"]
  by (simp add: float_mul_def float_add_def float_eval)

text \<open>
  Claim C3 as stated fails in both equations. At amount 70 and rate 7.25 the returned tax
  is the double 5.07 (the product \<open>70 * (7.25 / 100)\<close> is just below 5.075), while
  \<open>round(amount * rate / 100, 2)\<close>, where the product \<open>507.5\<close> is divided by 100, is 5.08.
  At amount \<open>1/256\<close> and rate 50 (both doubles, as are the tax \<open>1/512\<close> and the sum
  \<open>3/512\<close>) the returned total is 0.01, while the amount plus the returned tax 0.0,
  rounded, is 0.0.
\<close>

theorem calculate_sales_tax_total_counterexample:
  "fst (calculate_sales_tax (Fin 70) (Fin (29 / 4)))
     \<noteq> float_round2 (float_div_100 (float_mul (Fin 70) (Fin (29 / 4))))
   \<and> fst (calculate_sales_tax (Fin 70) (Fin (29 / 4))) = round_to_double (507 / 100)
   \<and> float_round2 (float_div_100 (float_mul (Fin 70) (Fin (29 / 4)))) = round_to_double (508 / 100)
   \<and> snd (calculate_sales_tax (Fin (1 / 256)) (Fin 50))
     \<noteq> float_round2 (float_add (Fin (1 / 256)) (fst (calculate_sales_tax (Fin (1 / 256)) (Fin 50))))
   \<and> snd (calculate_sales_tax (Fin (1 / 256)) (Fin 50)) = round_to_double (1 / 100)
   \<and> float_round2 (float_add (Fin (1 / 256)) (fst (calculate_sales_tax (Fin (1 / 256)) (Fin 50))))
     = Fin 0"
  by (simp add: calculate_sales_tax_def float_mul_def float_add_def float_eval)

text \<open>
  Claim C8. In the ingestion of delimited text a record is skipped, adding one to the
  skip counter and leaving the processed counter and the devices alone, exactly when its
  device name (the cell of the device column, stripped) is empty or its primary price
  parses to a value that is \<open>\<le> 0\<close>; otherwise a price record with the parsed price is
  stored under the name (with the prepaid price that \<open>prepaid_of\<close> finds) and the
  processed counter goes up by one. A table of three records of which the second has an
  empty device name and the third the price \<open>-5\<close> gives \<open>processed_count = 1\<close> and
  \<open>skipped_count = 2\<close>. The device name and the price are the texts that the loop reads,
  \<open>str(row.get(col, ''))\<close> (for a record too short to have the cell that is the text
  \<open>None\<close>), and stripping and parsing are those of Python: a name that is only a no-break
  space is empty, and a price of a no-break space and the digit 5 is 5.
\<close>

theorem process_row_skip_rule:
  "(let phone_name = strip (cell_text row phone_col);
        msrp_str = strip (cell_text row msrp_col)
    in (phone_name = [] \<or> (\<exists>v. parse_price msrp_str = Inr v \<and> float_le0 v)
          \<longrightarrow> process_row phone_col msrp_col prepaid_col row (devices, processed, skipped)
                = (devices, processed, skipped + 1))
     \<and> (\<not> (phone_name = [] \<or> (\<exists>v. parse_price msrp_str = Inr v \<and> float_le0 v))
          \<longrightarrow> (\<exists>m p. parse_price msrp_str = Inr m \<and> prepaid_of prepaid_col row = Inr p
                 \<and> process_row phone_col msrp_col prepaid_col row (devices, processed, skipped)
                   = (dict_set phone_name (DeviceData m p) devices, processed + 1, skipped))))
   \<and> process_csv_stream
       (Inr ([u ''Phone'', u ''MSRP''],
             [[u ''iPhone 15'', u ''$999.00''], [[], u ''500''], [u ''Pixel 8'', u ''-5'']]))
     = CsvOk [(u ''iPhone 15'', DeviceData (Fin 999) None)] 1 2 (u ''Phone'') (u ''MSRP'') None
   \<and> process_csv_stream
       (Inr ([u ''Phone'', u ''MSRP''], [[[160], u ''500''], [u ''Pixel 8'', [160, 53]]]))
     = CsvOk [(u ''Pixel 8'', DeviceData (Fin 5) None)] 1 1 (u ''Phone'') (u ''MSRP'') None"
proof (intro conjI)
  show "process_csv_stream
       (Inr ([u ''Phone'', u ''MSRP''], [[[160], u ''500''], [u ''Pixel 8'', [160, 53]]]))
     = CsvOk [(u ''Pixel 8'', DeviceData (Fin 5) None)] 1 1 (u ''Phone'') (u ''MSRP'') None"
    by (simp add: csv_eval price_eval decimal_of_def)
  obtain m where m: "parse_price (strip (cell_text row msrp_col)) = Inr m"
    using parse_price_total by blast
  obtain p where p: "prepaid_of prepaid_col row = Inr p"
    using prepaid_of_total by blast
  show "let phone_name = strip (cell_text row phone_col);
            msrp_str = strip (cell_text row msrp_col)
        in (phone_name = [] \<or> (\<exists>v. parse_price msrp_str = Inr v \<and> float_le0 v)
              \<longrightarrow> process_row phone_col msrp_col prepaid_col row (devices, processed, skipped)
                    = (devices, processed, skipped + 1))
         \<and> (\<not> (phone_name = [] \<or> (\<exists>v. parse_price msrp_str = Inr v \<and> float_le0 v))
              \<longrightarrow> (\<exists>m p. parse_price msrp_str = Inr m \<and> prepaid_of prepaid_col row = Inr p
                     \<and> process_row phone_col msrp_col prepaid_col row (devices, processed, skipped)
                       = (dict_set phone_name (DeviceData m p) devices, processed + 1, skipped)))"
  proof (cases "strip (cell_text row msrp_col) = []")
    case True
    with m have "m = Fin 0" by (simp add: parse_price_empty)
    with True m show ?thesis by (simp add: process_row_def Let_def)
  next
    case False
    with m p show ?thesis by (auto simp: process_row_def Let_def)
  qed
  show "process_csv_stream
       (Inr ([u ''Phone'', u ''MSRP''],
             [[u ''iPhone 15'', u ''$999.00''], [[], u ''500''], [u ''Pixel 8'', u ''-5'']]))
     = CsvOk [(u ''iPhone 15'', DeviceData (Fin 999) None)] 1 2 (u ''Phone'') (u ''MSRP'') None"
    by (simp add: csv_eval price_eval)
qed

theorem process_row_skip_rule_witness:
  "process_row (u ''Phone'') (u ''MSRP'') None [(u ''Phone'', Some (u ''Pixel 8'')), (u ''MSRP'', Some (u ''-5''))] ([], 0, 0)
     = ([], 0, 1)
   \<and> process_row (u ''Phone'') (u ''MSRP'') None [(u ''Phone'', Some (u ''Pixel 8'')), (u ''MSRP'', Some (u ''499''))] ([], 0, 0)
     = ([(u ''Pixel 8'', DeviceData (Fin 499) None)], 1, 0)"
proof
  have neg: "parse_price (u ''-5'') = Inr (Fin (- 5))"
    by (simp add: parse_price_def price_eval)
  show "process_row (u ''Phone'') (u ''MSRP'') None [(u ''Phone'', Some (u ''Pixel 8'')), (u ''MSRP'', Some (u ''-5''))] ([], 0, 0)
     = ([], 0, 1)"
    using process_row_skip_rule
      [of "[(u ''Phone'', Some (u ''Pixel 8'')), (u ''MSRP'', Some (u ''-5''))]" "(u ''Phone'')" "(u ''MSRP'')" None "[]" 0 0]
      neg
    by (simp add: cell_text_def strip_def is_space_def Let_def)
  have pos: "parse_price (u ''499'') = Inr (Fin 499)"
    by (simp add: parse_price_def price_eval)
  show "process_row (u ''Phone'') (u ''MSRP'') None [(u ''Phone'', Some (u ''Pixel 8'')), (u ''MSRP'', Some (u ''499''))] ([], 0, 0)
     = ([(u ''Pixel 8'', DeviceData (Fin 499) None)], 1, 0)"
    using process_row_skip_rule
      [of "[(u ''Phone'', Some (u ''Pixel 8'')), (u ''MSRP'', Some (u ''499''))]" "(u ''Phone'')" "(u ''MSRP'')" None "[]" 0 0]
      pos
    by (simp add: cell_text_def strip_def is_space_def Let_def prepaid_of_def)
qed

text \<open>
  Claim C4, as amended. The detection that \<open>process_price_sheet\<close> runs on a data frame
  guesses by position first: with more than 1 column (and a non-empty label there) the
  device column is the one at index 1, with more than 4 the primary price is at index 4,
  with more than 8 the secondary price is at index 8, whatever the labels say. The match
  by name decides a role only when the table is too short for that role's position: then
  the device column is the first label that is exactly \<open>phone\<close>, else the first with a
  device keyword and no code keyword; the primary price the first label containing
  \<open>ric purchase payment\<close>, else the first with a price keyword; the secondary price the
  first label containing \<open>prepaid\<close>. The detectors of \<open>StreamingCSVProcessor\<close> work the
  other way round: the first field matching a keyword wins, and the position (index 1, 4
  or 8) is only the fallback when no field matches.
\<close>

theorem column_detection_order:
  "(1 < length cols \<and> cols ! 1 \<noteq> [] \<longrightarrow> fst (position_and_name_tiers cols) = Some (cols ! 1))
   \<and> (4 < length cols \<and> cols ! 4 \<noteq> [] \<longrightarrow> fst (snd (position_and_name_tiers cols)) = Some (cols ! 4))
   \<and> (8 < length cols \<and> cols ! 8 \<noteq> [] \<longrightarrow> snd (snd (position_and_name_tiers cols)) = Some (cols ! 8))
   \<and> (length cols \<le> 1 \<longrightarrow>
        fst (position_and_name_tiers cols) =
          (case find is_phone_exact cols of
             Some col \<Rightarrow> Some col
           | None \<Rightarrow> find (\<lambda>col. matches_any phone_name_keywords col
                                 \<and> \<not> matches_any exclude_keywords col) cols))
   \<and> (length cols \<le> 4 \<longrightarrow>
        fst (snd (position_and_name_tiers cols)) =
          (case find is_ric_payment cols of
             Some col \<Rightarrow> Some col
           | None \<Rightarrow> find (matches_any price_keywords) cols))
   \<and> (length cols \<le> 8 \<longrightarrow> snd (snd (position_and_name_tiers cols)) = find is_prepaid_name cols)
   \<and> detect_phone_column cols =
        (case find (matches_any phone_patterns) cols of
           Some field \<Rightarrow> Some field
         | None \<Rightarrow> positional_guess cols 1)
   \<and> detect_msrp_column cols =
        (case find (matches_any msrp_patterns) cols of
           Some field \<Rightarrow> Some field
         | None \<Rightarrow> positional_guess cols 4)
   \<and> detect_prepaid_column cols =
        (case find (matches_any prepaid_patterns) cols of
           Some field \<Rightarrow> Some field
         | None \<Rightarrow> positional_guess cols 8)"
proof (intro conjI impI)
  show "detect_phone_column cols =
        (case find (matches_any phone_patterns) cols of
           Some field \<Rightarrow> Some field
         | None \<Rightarrow> positional_guess cols 1)"
    by (simp add: detect_phone_column_def detect_column_def positional_guess_def
          split: option.splits)
  show "detect_msrp_column cols =
        (case find (matches_any msrp_patterns) cols of
           Some field \<Rightarrow> Some field
         | None \<Rightarrow> positional_guess cols 4)"
    by (simp add: detect_msrp_column_def detect_column_def positional_guess_def
          split: option.splits)
  show "detect_prepaid_column cols =
        (case find (matches_any prepaid_patterns) cols of
           Some field \<Rightarrow> Some field
         | None \<Rightarrow> positional_guess cols 8)"
    by (simp add: detect_prepaid_column_def detect_column_def positional_guess_def
          split: option.splits)
qed (simp_all add: tiers_phone_by_position tiers_msrp_by_position tiers_prepaid_by_position
       tiers_phone_by_name tiers_msrp_by_name tiers_prepaid_by_name)

theorem column_detection_order_witness:
  "fst (position_and_name_tiers [u ''Phone'', u ''SAP Code'', u ''Region'', u ''x'', u ''Price'']) = Some (u ''SAP Code'')
   \<and> fst (snd (position_and_name_tiers [u ''Phone'', u ''SAP Code'', u ''Region'', u ''x'', u ''Price''])) = Some (u ''Price'')
   \<and> snd (snd (position_and_name_tiers [u ''Phone'', u ''SAP Code'', u ''Region'', u ''x'', u ''Price''])) = None
   \<and> position_and_name_tiers [u ''Phone''] = (Some (u ''Phone''), None, None)
   \<and> snd (snd (position_and_name_tiers [u ''a'', u ''b'', u ''c'', u ''d'', u ''e'', u ''f'', u ''g'', u ''h'', u ''i''])) = Some (u ''i'')
   \<and> detect_phone_column [u ''Phone'', u ''SAP Code'', u ''Region'', u ''x'', u ''Price''] = Some (u ''Phone'')"
  using column_detection_order [of "[u ''Phone'', u ''SAP Code'', u ''Region'', u ''x'', u ''Price'']"]
    column_detection_order [of "[u ''Phone'']"]
    column_detection_order [of "[u ''a'', u ''b'', u ''c'', u ''d'', u ''e'', u ''f'', u ''g'', u ''h'', u ''i'']"]
  by (simp add: is_prepaid_name_def is_phone_exact_def is_ric_payment_def strip_def
        is_space_def lower_eval matches_any_def phone_patterns_def
        price_keywords_def Let_def prod_eq_iff)

text \<open>
  Claim C4 as stated fails on the streaming detector: for the header \<open>Phone, SKU\<close>, which
  has more than one column, the device column is not the one at index 1.
\<close>

theorem detect_phone_column_counterexample:
  "1 < length [u ''Phone'', u ''SKU'']
   \<and> detect_phone_column [u ''Phone'', u ''SKU''] = Some (u ''Phone'')
   \<and> detect_phone_column [u ''Phone'', u ''SKU''] \<noteq> Some ([u ''Phone'', u ''SKU''] ! 1)"
  by (simp add: detect_phone_column_def detect_column_def matches_any_def phone_patterns_def
        strip_def is_space_def lower_eval)

text \<open>
  Claim C5, as amended. For every non-empty query and every limit, on a cache of positive
  capacity, \<open>search_devices\<close> returns a list and leaves it in the search cache under the
  key of the normalized query and the limit; an identical call right after is a hit: it
  returns the same list and moves that entry to the most recent end of the cache, changing
  nothing else; and a write into a cache that is at capacity drops the entry at the least
  recent end before the new entry is appended. For the empty query, whatever the limit and
  the cache, the call returns \<open>list(self.devices.keys())[:limit]\<close> and leaves the cache as
  it is, search cache included. On an empty search cache of capacity 0 a non-empty query
  raises \<open>KeyError\<close>.
\<close>

theorem search_devices_cached:
  "(query \<noteq> [] \<and> 0 < max_cache_size c \<longrightarrow>
      (\<exists>results c1.
           search_devices c query limit = Inr (results, c1)
         \<and> map_of (search_cache c1) (cache_key query limit) = Some results
         \<and> search_devices c1 query limit =
             Inr (results, c1\<lparr>search_cache := move_to_end (cache_key query limit) (search_cache c1)\<rparr>)
         \<and> last (move_to_end (cache_key query limit) (search_cache c1)) = (cache_key query limit, results)
         \<and> (map_of (search_cache c) (cache_key query limit) = None
              \<and> max_cache_size c \<le> length (search_cache c)
            \<longrightarrow> search_cache c1 = tl (search_cache c) @ [(cache_key query limit, results)])))
   \<and> search_devices c [] limit = Inr (slice_to limit (map fst (cache_devices c)), c)
   \<and> (query \<noteq> [] \<and> max_cache_size c = 0 \<and> search_cache c = [] \<longrightarrow>
        search_devices c query limit = Inl KeyError)"
proof (intro conjI impI)
  show "search_devices c [] limit = Inr (slice_to limit (map fst (cache_devices c)), c)"
    by (simp add: search_devices_def)
next
  assume "query \<noteq> [] \<and> max_cache_size c = 0 \<and> search_cache c = []"
  then show "search_devices c query limit = Inl KeyError"
    by (simp add: search_devices_def Let_def)
next
  assume "query \<noteq> [] \<and> 0 < max_cache_size c"
  then have assms: "query \<noteq> []" "0 < max_cache_size c"
    by simp_all
  show "\<exists>results c1.
           search_devices c query limit = Inr (results, c1)
         \<and> map_of (search_cache c1) (cache_key query limit) = Some results
         \<and> search_devices c1 query limit =
             Inr (results, c1\<lparr>search_cache := move_to_end (cache_key query limit) (search_cache c1)\<rparr>)
         \<and> last (move_to_end (cache_key query limit) (search_cache c1)) = (cache_key query limit, results)
         \<and> (map_of (search_cache c) (cache_key query limit) = None
              \<and> max_cache_size c \<le> length (search_cache c)
            \<longrightarrow> search_cache c1 = tl (search_cache c) @ [(cache_key query limit, results)])"
  proof (cases "map_of (search_cache c) (cache_key query limit)")
    case (Some cached)
    let ?c1 = "c\<lparr>search_cache := move_to_end (cache_key query limit) (search_cache c)\<rparr>"
    have first: "search_devices c query limit = Inr (cached, ?c1)"
      using assms(1) Some by (simp add: search_devices_def Let_def)
    have present: "map_of (search_cache ?c1) (cache_key query limit) = Some cached"
      using Some by (simp add: map_of_move_to_end)
    have second: "search_devices ?c1 query limit =
        Inr (cached, ?c1\<lparr>search_cache := move_to_end (cache_key query limit) (search_cache ?c1)\<rparr>)"
      using assms(1) present by (simp add: search_devices_def Let_def)
    have recent: "last (move_to_end (cache_key query limit) (search_cache ?c1))
        = (cache_key query limit, cached)"
      using present by (rule last_move_to_end)
    from first present second recent Some show ?thesis by auto
  next
    case None
    let ?key = "cache_key query limit"
    let ?results = "search_loop (lower query) limit (map fst (cache_devices c)) []"
    show ?thesis
    proof (cases "max_cache_size c \<le> length (search_cache c)")
      case True
      with assms(2) obtain oldest newer where sc: "search_cache c = oldest # newer"
        by (cases "search_cache c") auto
      from None sc have newer: "map_of newer ?key = None"
        by (cases oldest) (auto split: if_splits)
      let ?c1 = "c\<lparr>search_cache := dict_set ?key ?results newer\<rparr>"
      have first: "search_devices c query limit = Inr (?results, ?c1)"
        using assms(1) None True sc by (simp add: search_devices_def Let_def)
      have present: "map_of (search_cache ?c1) ?key = Some ?results"
        by (simp add: map_of_dict_set)
      have second: "search_devices ?c1 query limit =
          Inr (?results, ?c1\<lparr>search_cache := move_to_end ?key (search_cache ?c1)\<rparr>)"
        using assms(1) present by (simp add: search_devices_def Let_def)
      have recent: "last (move_to_end ?key (search_cache ?c1)) = (?key, ?results)"
        using present by (rule last_move_to_end)
      have evict: "search_cache ?c1 = tl (search_cache c) @ [(?key, ?results)]"
        using newer sc by (simp add: dict_set_new_key)
      from first present second recent evict show ?thesis by blast
    next
      case False
      let ?c1 = "c\<lparr>search_cache := dict_set ?key ?results (search_cache c)\<rparr>"
      have first: "search_devices c query limit = Inr (?results, ?c1)"
        using assms(1) None False by (simp add: search_devices_def Let_def)
      have present: "map_of (search_cache ?c1) ?key = Some ?results"
        by (simp add: map_of_dict_set)
      have second: "search_devices ?c1 query limit =
          Inr (?results, ?c1\<lparr>search_cache := move_to_end ?key (search_cache ?c1)\<rparr>)"
        using assms(1) present by (simp add: search_devices_def Let_def)
      have recent: "last (move_to_end ?key (search_cache ?c1)) = (?key, ?results)"
        using present by (rule last_move_to_end)
      from first present second recent False show ?thesis by blast
    qed
  qed
qed

theorem search_devices_cached_witness:
  "(\<exists>results c1.
      search_devices
        ((new_cache 1)\<lparr>cache_devices := [(u ''Samsung Galaxy S25'', DeviceData (Fin 799) None)],
                       search_cache := [(u ''pixel:5'', [])]\<rparr>) (u ''Galaxy'') 10 = Inr (results, c1)
      \<and> map_of (search_cache c1) (u ''galaxy:10'') = Some results
      \<and> search_cache c1 = [(u ''galaxy:10'', results)])
   \<and> search_devices (new_cache 0) (u ''Galaxy'') 10 = Inl KeyError"
proof
  let ?c = "(new_cache 1)\<lparr>cache_devices := [(u ''Samsung Galaxy S25'', DeviceData (Fin 799) None)],
                      search_cache := [(u ''pixel:5'', [])]\<rparr>"
  have k: "cache_key (u ''Galaxy'') 10 = u ''galaxy:10''"
    by (simp add: cache_key_def lower_eval str_int_def)
  show "\<exists>results c1.
      search_devices ?c (u ''Galaxy'') 10 = Inr (results, c1)
      \<and> map_of (search_cache c1) (u ''galaxy:10'') = Some results
      \<and> search_cache c1 = [(u ''galaxy:10'', results)]"
    using search_devices_cached [of "u ''Galaxy''" ?c 10] k
    by (auto simp: new_cache_def)
  show "search_devices (new_cache 0) (u ''Galaxy'') 10 = Inl KeyError"
    using search_devices_cached [of "u ''Galaxy''" "new_cache 0" 10]
    by (simp add: new_cache_def)
qed

text \<open>
  Claim C5 as stated fails for the empty query: the call returns the device names before
  the cache is looked at, and its key is not in the cache afterwards. It also fails on a
  cache of capacity 0, where the first write finds the cache at capacity and empty: the
  call raises \<open>KeyError\<close> and nothing is cached.
\<close>

theorem search_devices_empty_query_counterexample:
  "search_devices
     ((new_cache 2000)\<lparr>cache_devices := [(u ''Pixel 8'', DeviceData (Fin 499) None)]\<rparr>) [] 10
     = Inr ([u ''Pixel 8''],
            (new_cache 2000)\<lparr>cache_devices := [(u ''Pixel 8'', DeviceData (Fin 499) None)]\<rparr>)
   \<and> map_of (search_cache
         ((new_cache 2000)\<lparr>cache_devices := [(u ''Pixel 8'', DeviceData (Fin 499) None)]\<rparr>))
       (cache_key [] 10) = None
   \<and> search_devices
       ((new_cache 0)\<lparr>cache_devices := [(u ''Pixel 8'', DeviceData (Fin 499) None)]\<rparr>) (u ''pixel'') 10
     = Inl KeyError"
  by (simp add: search_devices_def new_cache_def slice_to_def cache_key_def lower_eval
        str_int_def Let_def)

text \<open>
  Claim C10, as amended. Loading a catalog into the device cache succeeds for every
  catalog in which each device name has a character that is not whitespace and each price
  is a finite number; for a catalog with a name that is not empty but all whitespace
  (whitespace as \<open>str.split\<close> sees it, so also a no-break space) the index raises, so the
  load is not total over the catalogs whose names are merely non-empty. For the catalog of
  the one device \<open>Pixel 8\<close> at 499 the load leaves the brand index \<open>pixel\<close> and the price
  index \<open>400-499\<close>.
\<close>

theorem load_devices_total:
  "((\<forall>(device_name, device_data) \<in> set devs.
        (\<exists>ch\<in>set device_name. \<not> is_space ch) \<and> (\<exists>r. price_of device_data = Fin r))
      \<longrightarrow> fst (load_devices c devs now) = None)
   \<and> ((\<exists>(device_name, device_data) \<in> set devs. device_name \<noteq> [] \<and> (\<forall>ch\<in>set device_name. is_space ch))
      \<longrightarrow> fst (load_devices c devs now) \<noteq> None)
   \<and> load_devices (new_cache 2000) [(u ''Pixel 8'', DeviceData (Fin 499) None)] 7 =
       (None,
        \<lparr>cache_devices = [(u ''Pixel 8'', DeviceData (Fin 499) None)],
         device_index = [(u ''pixel'', [u ''Pixel 8''])],
         price_index = [(u ''400-499'', [u ''Pixel 8''])],
         search_cache = [], max_cache_size = 2000, last_modified = Some 7\<rparr>)"
proof (intro conjI impI)
  show "load_devices (new_cache 2000) [(u ''Pixel 8'', DeviceData (Fin 499) None)] 7 =
       (None,
        \<lparr>cache_devices = [(u ''Pixel 8'', DeviceData (Fin 499) None)],
         device_index = [(u ''pixel'', [u ''Pixel 8''])],
         price_index = [(u ''400-499'', [u ''Pixel 8''])],
         search_cache = [], max_cache_size = 2000, last_modified = Some 7\<rparr>)"
    by (simp add: load_devices_def new_cache_def brand_of_def is_space_def lower_eval
          index_append_def price_range_def str_int_def float_eval Let_def)
next
  assume "\<forall>(device_name, device_data) \<in> set devs.
        (\<exists>ch\<in>set device_name. \<not> is_space ch) \<and> (\<exists>r. price_of device_data = Fin r)"
  then have "fst (build_indexes devs ([], [])) = None"
    by (rule build_indexes_ok)
  then show "fst (load_devices c devs now) = None"
    by (auto simp: load_devices_def Let_def split: prod.splits option.splits)
next
  assume "\<exists>(device_name, device_data) \<in> set devs. device_name \<noteq> [] \<and> (\<forall>ch\<in>set device_name. is_space ch)"
  then obtain device_name device_data where "(device_name, device_data) \<in> set devs"
    and "device_name \<noteq> []" and "\<forall>ch\<in>set device_name. is_space ch"
    by auto
  then have "fst (build_indexes devs ([], [])) \<noteq> None"
    by (rule build_indexes_whitespace_key)
  then show "fst (load_devices c devs now) \<noteq> None"
    by (auto simp: load_devices_def Let_def split: prod.splits option.splits)
qed

theorem load_devices_total_witness:
  "fst (load_devices (new_cache 2000) [(u ''Pixel 8'', DeviceData (Fin 499) None)] 0) = None
   \<and> fst (load_devices (new_cache 2000) [(u ''  '', DeviceData (Fin 499) None)] 0) \<noteq> None
   \<and> fst (load_devices (new_cache 2000)
             [(u ''Pixel 8'', DeviceData (Fin 499) None), ([160], DeviceData (Fin 499) None)] 0) \<noteq> None"
  using load_devices_total [of "[(u ''Pixel 8'', DeviceData (Fin 499) None)]" "new_cache 2000" 0]
    load_devices_total [of "[(u ''  '', DeviceData (Fin 499) None)]" "new_cache 2000" 0]
    load_devices_total
      [of "[(u ''Pixel 8'', DeviceData (Fin 499) None), ([160], DeviceData (Fin 499) None)]"
          "new_cache 2000" 0]
  by (simp add: is_space_def)

text \<open>
  Claim C10 as stated fails: the name \<open>X\<close> has a character that is not whitespace, and
  the load of a catalog that holds it with the price NaN raises \<open>ValueError\<close>.
\<close>

theorem load_devices_nan_counterexample:
  "\<not> is_space 88
   \<and> fst (load_devices (new_cache 2000) [(u ''X'', DeviceData NaN None)] 0) = Some ValueError"
  by (simp add: is_space_def load_devices_def brand_of_def lower_eval price_range_def Let_def)

text \<open>
  Claim C6. Both paths of \<open>process_price_sheet\<close> merge the ingested fragment with
  \<open>self.devices.update(new_devices)\<close>, and that merge is last-write-wins by device name:
  a name of the fragment gets the fragment's record as a whole (so a \<open>prepaid\<close> that only
  the old record had is gone), a name that is only in the fragment is added, and a name
  that is only in the catalog keeps its record. The fragment of the streaming path is a
  dictionary (no name twice); for the data-frame path that is what \<open>new_devices\<close> is.
\<close>

theorem merge_last_write_wins:
  "(process_csv_stream (csv_module w content) = CsvOk new p sk pc mc ppc \<longrightarrow>
      distinct (map fst new)
      \<and> self_devices (snd (process_price_sheet w s Csv content)) = dict_update (self_devices s) new)
   \<and> (pandas_module w Excel content = FrameRows new p sk pc mc \<and> new \<noteq> [] \<longrightarrow>
      self_devices (snd (process_price_sheet w s Excel content)) = dict_update (self_devices s) new)
   \<and> (distinct (map fst new) \<longrightarrow>
      map_of (dict_update (self_devices s) new) device_name =
        (case map_of new device_name of
           Some new_record \<Rightarrow> Some new_record
         | None \<Rightarrow> map_of (self_devices s) device_name))"
proof (intro conjI impI)
  assume ok: "process_csv_stream (csv_module w content) = CsvOk new p sk pc mc ppc"
  then show "distinct (map fst new)"
    by (rule process_csv_stream_distinct)
  from ok show "self_devices (snd (process_price_sheet w s Csv content)) = dict_update (self_devices s) new"
    by (simp add: process_price_sheet_def Let_def self_devices_save_devices)
next
  assume "pandas_module w Excel content = FrameRows new p sk pc mc \<and> new \<noteq> []"
  then show "self_devices (snd (process_price_sheet w s Excel content)) = dict_update (self_devices s) new"
    by (simp add: process_price_sheet_def merge_frame_def Let_def self_devices_save_devices)
next
  assume "distinct (map fst new)"
  then show "map_of (dict_update (self_devices s) new) device_name =
        (case map_of new device_name of
           Some new_record \<Rightarrow> Some new_record
         | None \<Rightarrow> map_of (self_devices s) device_name)"
    by (simp add: map_of_dict_update map_of_rev_distinct)
qed

theorem merge_last_write_wins_witness:
  "map_of (dict_update
             [(u ''Pixel 8'', DeviceData (Fin 499) (Some (Fin 50))), (u ''moto g'', DeviceData (Fin 199) None)]
             [(u ''Pixel 8'', DeviceData (Fin 549) None), (u ''iPhone 15'', DeviceData (Fin 799) None)])
          (u ''Pixel 8'')
     = Some (DeviceData (Fin 549) None)
   \<and> self_devices (snd (process_price_sheet (serving price_payload 0)
          (new_calculator\<lparr>self_devices :=
             [(u ''Pixel 8'', DeviceData (Fin 499) (Some (Fin 50))), (u ''moto g'', DeviceData (Fin 199) None)]\<rparr>)
          Csv price_payload))
     = [(u ''Pixel 8'', DeviceData (Fin 549) None), (u ''moto g'', DeviceData (Fin 199) None)]
   \<and> self_devices (snd (process_price_sheet
          ((serving [] 0)\<lparr>pandas_module :=
              (\<lambda>kind content. FrameRows [(u ''iPhone 15'', DeviceData (Fin 799) None)] 1 0 (u ''Phone'') (u ''MSRP''))\<rparr>)
          (new_calculator\<lparr>self_devices := [(u ''moto g'', DeviceData (Fin 199) None)]\<rparr>)
          Excel []))
     = [(u ''moto g'', DeviceData (Fin 199) None), (u ''iPhone 15'', DeviceData (Fin 799) None)]"
proof (intro conjI)
  show "map_of (dict_update
             [(u ''Pixel 8'', DeviceData (Fin 499) (Some (Fin 50))), (u ''moto g'', DeviceData (Fin 199) None)]
             [(u ''Pixel 8'', DeviceData (Fin 549) None), (u ''iPhone 15'', DeviceData (Fin 799) None)])
          (u ''Pixel 8'')
     = Some (DeviceData (Fin 549) None)"
    using merge_last_write_wins
      [where s = "new_calculator\<lparr>self_devices :=
                    [(u ''Pixel 8'', DeviceData (Fin 499) (Some (Fin 50))),
                     (u ''moto g'', DeviceData (Fin 199) None)]\<rparr>"
         and new = "[(u ''Pixel 8'', DeviceData (Fin 549) None), (u ''iPhone 15'', DeviceData (Fin 799) None)]"
         and device_name = "(u ''Pixel 8'')"]
    by simp
  have r: "csv_module (serving price_payload 0) price_payload
             = Inr ([u ''Phone'', u ''MSRP''], [[u ''Pixel 8'', u ''$549.00'']])"
    by (simp add: serving_def price_payload_def comma_reader_def Let_def)
  have p: "process_csv_stream (Inr ([u ''Phone'', u ''MSRP''], [[u ''Pixel 8'', u ''$549.00'']]))
             = CsvOk [(u ''Pixel 8'', DeviceData (Fin 549) None)] 1 0 (u ''Phone'') (u ''MSRP'') None"
    by (simp add: csv_eval price_eval)
  show "self_devices (snd (process_price_sheet (serving price_payload 0)
          (new_calculator\<lparr>self_devices :=
             [(u ''Pixel 8'', DeviceData (Fin 499) (Some (Fin 50))), (u ''moto g'', DeviceData (Fin 199) None)]\<rparr>)
          Csv price_payload))
     = [(u ''Pixel 8'', DeviceData (Fin 549) None), (u ''moto g'', DeviceData (Fin 199) None)]"
    using merge_last_write_wins
      [where w = "serving price_payload 0" and content = price_payload
         and new = "[(u ''Pixel 8'', DeviceData (Fin 549) None)]" and p = 1 and sk = 0
         and pc = "(u ''Phone'')" and mc = "(u ''MSRP'')" and ppc = None
         and s = "new_calculator\<lparr>self_devices :=
             [(u ''Pixel 8'', DeviceData (Fin 499) (Some (Fin 50))), (u ''moto g'', DeviceData (Fin 199) None)]\<rparr>"]
      r p
    by (simp add: dict_update_def)
  show "self_devices (snd (process_price_sheet
          ((serving [] 0)\<lparr>pandas_module :=
              (\<lambda>kind content. FrameRows [(u ''iPhone 15'', DeviceData (Fin 799) None)] 1 0 (u ''Phone'') (u ''MSRP''))\<rparr>)
          (new_calculator\<lparr>self_devices := [(u ''moto g'', DeviceData (Fin 199) None)]\<rparr>)
          Excel []))
     = [(u ''moto g'', DeviceData (Fin 199) None), (u ''iPhone 15'', DeviceData (Fin 799) None)]"
    using merge_last_write_wins
      [where w = "(serving [] 0)\<lparr>pandas_module :=
              (\<lambda>kind content. FrameRows [(u ''iPhone 15'', DeviceData (Fin 799) None)] 1 0 (u ''Phone'') (u ''MSRP''))\<rparr>"
         and content = "[]" and new = "[(u ''iPhone 15'', DeviceData (Fin 799) None)]" and p = 1 and sk = 0
         and pc = "(u ''Phone'')" and mc = "(u ''MSRP'')"
         and s = "new_calculator\<lparr>self_devices := [(u ''moto g'', DeviceData (Fin 199) None)]\<rparr>"]
    by (simp add: dict_update_def)
qed

text \<open>
  Claim C2, as amended. A refresh that fails because the download raises or the response
  is not 200 leaves the whole state as it was. A refresh that fails in the ingestion of a
  downloaded payload leaves the catalog file, the last-update record, the catalog in
  memory and the device cache as they were, but the local cache copy has by then been
  overwritten with the payload. The catalog in memory changes only when the ingestion
  succeeds.
\<close>

theorem failed_refresh_keeps_state:
  "(get_response w = Inl e \<longrightarrow> download_and_process_google_sheets w s = (False, s))
   \<and> (get_response w = Inr (status_code, content) \<and> status_code \<noteq> 200 \<longrightarrow>
        download_and_process_google_sheets w s = (False, s))
   \<and> (get_response w = Inr (200, content) \<and> \<not> fst (download_and_process_google_sheets w s) \<longrightarrow>
        snd (download_and_process_google_sheets w s) = s\<lparr>cache_file := Some content\<rparr>)
   \<and> (self_devices (snd (download_and_process_google_sheets w s)) \<noteq> self_devices s \<longrightarrow>
        fst (download_and_process_google_sheets w s))"
proof (intro conjI impI)
  assume "get_response w = Inl e"
  then show "download_and_process_google_sheets w s = (False, s)"
    by (simp add: download_and_process_google_sheets_def)
next
  assume "get_response w = Inr (status_code, content) \<and> status_code \<noteq> 200"
  then show "download_and_process_google_sheets w s = (False, s)"
    by (simp add: download_and_process_google_sheets_def)
next
  assume a: "get_response w = Inr (200, content) \<and> \<not> fst (download_and_process_google_sheets w s)"
  then have g: "get_response w = Inr (200, content)"
    and failed: "\<not> fst (download_and_process_google_sheets w s)"
    by simp_all
  obtain r s2 where p: "process_price_sheet w (s\<lparr>cache_file := Some content\<rparr>) Csv content = (r, s2)"
    by (cases "process_price_sheet w (s\<lparr>cache_file := Some content\<rparr>) Csv content")
  from failed g p have r: "r = SheetFail"
    by (cases r) (simp_all add: download_and_process_google_sheets_def Let_def)
  with p have "s2 = s\<lparr>cache_file := Some content\<rparr>"
    using process_price_sheet_fail [of w "s\<lparr>cache_file := Some content\<rparr>" Csv content] by simp
  with g p r show "snd (download_and_process_google_sheets w s) = s\<lparr>cache_file := Some content\<rparr>"
    by (simp add: download_and_process_google_sheets_def Let_def)
next
  assume changed: "self_devices (snd (download_and_process_google_sheets w s)) \<noteq> self_devices s"
  show "fst (download_and_process_google_sheets w s)"
  proof (rule ccontr)
    assume failed: "\<not> fst (download_and_process_google_sheets w s)"
    have "self_devices (snd (download_and_process_google_sheets w s)) = self_devices s"
    proof (cases "get_response w")
      case (Inl e)
      then show ?thesis by (simp add: download_and_process_google_sheets_def)
    next
      case (Inr resp)
      obtain status_code content where resp: "resp = (status_code, content)" by (cases resp)
      show ?thesis
      proof (cases "status_code = 200")
        case False
        with Inr resp show ?thesis by (simp add: download_and_process_google_sheets_def)
      next
        case True
        obtain r s2 where p: "process_price_sheet w (s\<lparr>cache_file := Some content\<rparr>) Csv content = (r, s2)"
          by (cases "process_price_sheet w (s\<lparr>cache_file := Some content\<rparr>) Csv content")
        from failed Inr resp True p have r: "r = SheetFail"
          by (cases r) (simp_all add: download_and_process_google_sheets_def Let_def)
        with p have "s2 = s\<lparr>cache_file := Some content\<rparr>"
          using process_price_sheet_fail [of w "s\<lparr>cache_file := Some content\<rparr>" Csv content] by simp
        with Inr resp True p r show ?thesis
          by (simp add: download_and_process_google_sheets_def Let_def)
      qed
    qed
    with changed show False by simp
  qed
qed

text \<open>
  Claim C2 as stated fails. The server answers 200 with an empty body while a cache copy
  exists; the body is written over the copy, then neither the \<open>csv\<close> module nor pandas
  can read it, and the refresh fails with the old copy gone.
\<close>

theorem failed_refresh_cache_file_counterexample:
  "fst (download_and_process_google_sheets (serving [] 0)
          (new_calculator\<lparr>cache_file := Some (u ''Phone,MSRP'')\<rparr>)) = False
   \<and> cache_file (snd (download_and_process_google_sheets (serving [] 0)
          (new_calculator\<lparr>cache_file := Some (u ''Phone,MSRP'')\<rparr>))) = Some []
   \<and> cache_file (new_calculator\<lparr>cache_file := Some (u ''Phone,MSRP'')\<rparr>) = Some (u ''Phone,MSRP'')"
  by (simp add: download_and_process_google_sheets_def serving_def new_calculator_def
        process_price_sheet_def process_csv_stream_def comma_reader_def merge_frame_def)

theorem failed_refresh_keeps_state_witness:
  "snd (download_and_process_google_sheets (serving [] 0)
          (new_calculator\<lparr>cache_file := Some (u ''Phone,MSRP'')\<rparr>))
     = new_calculator\<lparr>cache_file := Some []\<rparr>
   \<and> download_and_process_google_sheets ((serving [] 0)\<lparr>get_response := Inl IOError\<rparr>) new_calculator
     = (False, new_calculator)
   \<and> download_and_process_google_sheets ((serving [] 0)\<lparr>get_response := Inr (404, [])\<rparr>) new_calculator
     = (False, new_calculator)
   \<and> fst (download_and_process_google_sheets (serving price_payload 0) new_calculator)"
proof (intro conjI)
  have g: "get_response (serving [] 0) = Inr (200, [])"
    by (simp add: serving_def)
  have f: "\<not> fst (download_and_process_google_sheets (serving [] 0)
          (new_calculator\<lparr>cache_file := Some (u ''Phone,MSRP'')\<rparr>))"
    by (simp add: download_and_process_google_sheets_def serving_def new_calculator_def
        process_price_sheet_def process_csv_stream_def comma_reader_def merge_frame_def)
  show "snd (download_and_process_google_sheets (serving [] 0)
          (new_calculator\<lparr>cache_file := Some (u ''Phone,MSRP'')\<rparr>))
     = new_calculator\<lparr>cache_file := Some []\<rparr>"
    using failed_refresh_keeps_state
      [where w = "serving [] 0" and s = "new_calculator\<lparr>cache_file := Some (u ''Phone,MSRP'')\<rparr>"
         and content = "[]"] g f
    by simp
  show "download_and_process_google_sheets ((serving [] 0)\<lparr>get_response := Inl IOError\<rparr>) new_calculator
     = (False, new_calculator)"
    using failed_refresh_keeps_state
      [where w = "(serving [] 0)\<lparr>get_response := Inl IOError\<rparr>" and s = new_calculator
         and e = IOError]
    by simp
  show "download_and_process_google_sheets ((serving [] 0)\<lparr>get_response := Inr (404, [])\<rparr>) new_calculator
     = (False, new_calculator)"
    using failed_refresh_keeps_state
      [where w = "(serving [] 0)\<lparr>get_response := Inr (404, [])\<rparr>" and s = new_calculator
         and status_code = 404 and content = "[]"]
    by simp
  have r: "comma_reader price_payload = Inr ([u ''Phone'', u ''MSRP''], [[u ''Pixel 8'', u ''$549.00'']])"
    by (simp add: price_payload_def comma_reader_def Let_def)
  have p: "process_csv_stream (Inr ([u ''Phone'', u ''MSRP''], [[u ''Pixel 8'', u ''$549.00'']]))
             = CsvOk [(u ''Pixel 8'', DeviceData (Fin 549) None)] 1 0 (u ''Phone'') (u ''MSRP'') None"
    by (simp add: csv_eval price_eval)
  have d: "self_devices (snd (download_and_process_google_sheets (serving price_payload 0) new_calculator))
             = [(u ''Pixel 8'', DeviceData (Fin 549) None)]"
    using r p
    by (simp add: download_and_process_google_sheets_def process_price_sheet_def serving_def
          Let_def dict_update_def save_devices_def save_last_update_info_def new_calculator_def
          split: prod.splits)
  show "fst (download_and_process_google_sheets (serving price_payload 0) new_calculator)"
    using failed_refresh_keeps_state [where w = "serving price_payload 0" and s = new_calculator] d
    by (simp add: new_calculator_def)
qed

text \<open>
  Claim C1. The staleness decision of \<open>check_and_update_from_google_sheets\<close> tests its
  conditions in this order, the first that holds deciding: (1) no local cache file:
  refresh; (2) the remote reports a content length that differs from the recorded one:
  refresh; (3) no check time recorded: refresh; (4) the recorded check time is more than
  one hour (3600 seconds, here in microseconds) old: refresh; (5) otherwise no refresh.
  So without a last-update record the decision is to refresh; with a cache file, a
  matching size and a check 30 minutes ago it is not to refresh; with the same and a
  check 90 minutes ago it is to refresh. After a \<open>HEAD\<close> response 200 the function
  downloads exactly when the decision is to refresh, and otherwise leaves the state alone.
\<close>

theorem staleness_decision_order:
  "(\<not> cache_exists \<longrightarrow> should_update cache_exists remote_size info now = Inr True)
   \<and> (cache_exists \<and> col_truthy remote_size \<and> info_size info \<noteq> remote_size \<longrightarrow>
        should_update cache_exists remote_size info now = Inr True)
   \<and> (cache_exists \<and> \<not> (col_truthy remote_size \<and> info_size info \<noteq> remote_size)
        \<and> info_last_check info = None \<longrightarrow>
        should_update cache_exists remote_size info now = Inr True)
   \<and> (cache_exists \<and> \<not> (col_truthy remote_size \<and> info_size info \<noteq> remote_size)
        \<and> info_last_check info = Some (Stamp t) \<and> 3600 * 1000000 < now - t \<longrightarrow>
        should_update cache_exists remote_size info now = Inr True)
   \<and> (cache_exists \<and> \<not> (col_truthy remote_size \<and> info_size info \<noteq> remote_size)
        \<and> info_last_check info = Some (Stamp t) \<and> \<not> 3600 * 1000000 < now - t \<longrightarrow>
        should_update cache_exists remote_size info now = Inr False)
   \<and> (last_update_file s = None \<longrightarrow>
        should_update cache_exists remote_size (load_last_update_info s) now = Inr True)
   \<and> (col_truthy remote_size \<longrightarrow>
        should_update True remote_size
          (info\<lparr>info_last_check := Some (Stamp (now - 30 * 60 * 1000000)), info_size := remote_size\<rparr>)
          now = Inr False)
   \<and> (col_truthy remote_size \<longrightarrow>
        should_update True remote_size
          (info\<lparr>info_last_check := Some (Stamp (now - 90 * 60 * 1000000)), info_size := remote_size\<rparr>)
          now = Inr True)
   \<and> (head_response w = Inr (200, remote_size) \<longrightarrow>
        check_and_update_from_google_sheets w s =
          (if should_update (cache_file s \<noteq> None) remote_size (load_last_update_info s) (clock w) = Inr True
           then download_and_process_google_sheets w s
           else (should_update (cache_file s \<noteq> None) remote_size (load_last_update_info s) (clock w)
                   = Inr False, s)))"
proof (intro conjI impI)
  assume "last_update_file s = None"
  then show "should_update cache_exists remote_size (load_last_update_info s) now = Inr True"
    by (simp add: should_update_def load_last_update_info_def empty_info_def)
next
  assume "head_response w = Inr (200, remote_size)"
  then show "check_and_update_from_google_sheets w s =
          (if should_update (cache_file s \<noteq> None) remote_size (load_last_update_info s) (clock w) = Inr True
           then download_and_process_google_sheets w s
           else (should_update (cache_file s \<noteq> None) remote_size (load_last_update_info s) (clock w)
                   = Inr False, s))"
    by (auto simp: check_and_update_from_google_sheets_def split: sum.splits bool.splits)
qed (auto simp: should_update_def)

theorem staleness_decision_order_witness:
  "should_update False (Some (u ''120'')) empty_info 0 = Inr True
   \<and> should_update True (Some (u ''120'')) empty_info 0 = Inr True
   \<and> should_update True None empty_info 0 = Inr True
   \<and> should_update True (Some (u ''120''))
        (empty_info\<lparr>info_last_check := Some (Stamp 0), info_size := Some (u ''120'')\<rparr>) 1800000000 = Inr False
   \<and> should_update True (Some (u ''120''))
        (empty_info\<lparr>info_last_check := Some (Stamp 0), info_size := Some (u ''120'')\<rparr>) 5400000000 = Inr True
   \<and> should_update True None (load_last_update_info new_calculator) 0 = Inr True
   \<and> should_update True (Some (u ''120''))
        (empty_info\<lparr>info_last_check := Some (Stamp (7200000000 - 30 * 60 * 1000000)),
                     info_size := Some (u ''120'')\<rparr>) 7200000000 = Inr False
   \<and> should_update True (Some (u ''120''))
        (empty_info\<lparr>info_last_check := Some (Stamp (7200000000 - 90 * 60 * 1000000)),
                     info_size := Some (u ''120'')\<rparr>) 7200000000 = Inr True
   \<and> check_and_update_from_google_sheets (serving (u ''Phone,MSRP'') 1800000000)
        (new_calculator\<lparr>cache_file := Some (u ''Phone,MSRP''),
           last_update_file := Some (empty_info\<lparr>info_last_check := Some (Stamp 0), info_size := Some (u ''10'')\<rparr>)\<rparr>)
      = (True, new_calculator\<lparr>cache_file := Some (u ''Phone,MSRP''),
           last_update_file := Some (empty_info\<lparr>info_last_check := Some (Stamp 0), info_size := Some (u ''10'')\<rparr>)\<rparr>)"
proof (intro conjI)
  show "should_update False (Some (u ''120'')) empty_info 0 = Inr True"
    using staleness_decision_order [where cache_exists = False and remote_size = "Some (u ''120'')"
        and info = empty_info and now = 0]
    by simp
  show "should_update True (Some (u ''120'')) empty_info 0 = Inr True"
    using staleness_decision_order [where cache_exists = True and remote_size = "Some (u ''120'')"
        and info = empty_info and now = 0]
    by (simp add: empty_info_def)
  show "should_update True None empty_info 0 = Inr True"
    using staleness_decision_order [where cache_exists = True and remote_size = None
        and info = empty_info and now = 0]
    by (simp add: empty_info_def)
  show "should_update True (Some (u ''120''))
        (empty_info\<lparr>info_last_check := Some (Stamp 0), info_size := Some (u ''120'')\<rparr>) 1800000000 = Inr False"
    using staleness_decision_order [where cache_exists = True and remote_size = "Some (u ''120'')"
        and info = "empty_info\<lparr>info_last_check := Some (Stamp 0), info_size := Some (u ''120'')\<rparr>"
        and now = 1800000000 and t = 0]
    by simp
  show "should_update True (Some (u ''120''))
        (empty_info\<lparr>info_last_check := Some (Stamp 0), info_size := Some (u ''120'')\<rparr>) 5400000000 = Inr True"
    using staleness_decision_order [where cache_exists = True and remote_size = "Some (u ''120'')"
        and info = "empty_info\<lparr>info_last_check := Some (Stamp 0), info_size := Some (u ''120'')\<rparr>"
        and now = 5400000000 and t = 0]
    by simp
  show "should_update True None (load_last_update_info new_calculator) 0 = Inr True"
    using staleness_decision_order [where cache_exists = True and remote_size = None
        and s = new_calculator and now = 0]
    by (simp add: new_calculator_def)
  show "should_update True (Some (u ''120''))
        (empty_info\<lparr>info_last_check := Some (Stamp (7200000000 - 30 * 60 * 1000000)),
                     info_size := Some (u ''120'')\<rparr>) 7200000000 = Inr False"
    using staleness_decision_order [where remote_size = "Some (u ''120'')" and info = empty_info
        and now = 7200000000]
    by simp
  show "should_update True (Some (u ''120''))
        (empty_info\<lparr>info_last_check := Some (Stamp (7200000000 - 90 * 60 * 1000000)),
                     info_size := Some (u ''120'')\<rparr>) 7200000000 = Inr True"
    using staleness_decision_order [where remote_size = "Some (u ''120'')" and info = empty_info
        and now = 7200000000]
    by simp
  let ?s = "new_calculator\<lparr>cache_file := Some (u ''Phone,MSRP''),
           last_update_file := Some (empty_info\<lparr>info_last_check := Some (Stamp 0), info_size := Some (u ''10'')\<rparr>)\<rparr>"
  have h: "head_response (serving (u ''Phone,MSRP'') 1800000000) = Inr (200, Some (u ''10''))"
    by (simp add: serving_def str_int_def)
  have d: "should_update (cache_file ?s \<noteq> None) (Some (u ''10'')) (load_last_update_info ?s)
             (clock (serving (u ''Phone,MSRP'') 1800000000)) = Inr False"
    by (simp add: should_update_def load_last_update_info_def new_calculator_def serving_def)
  show "check_and_update_from_google_sheets (serving (u ''Phone,MSRP'') 1800000000) ?s = (True, ?s)"
    using staleness_decision_order [where w = "serving (u ''Phone,MSRP'') 1800000000" and s = ?s
        and remote_size = "Some (u ''10'')"] h d
    by simp
qed

text \<open>
  Claim C7 is not met by the streaming path. The payload
  \<^verbatim>\<open>
  Phone,MSRP
  Galaxy,nan
  \<close>
  is ingested with success: \<open>float("nan")\<close> is a NaN, \<open>msrp <= 0\<close> is false for it, and the
  record is stored in the catalog and written to the catalog file, although its \<open>msrp\<close> is
  not greater than 0. (The data-frame path tests \<open>msrp_float > 0\<close> and drops such a row.)
\<close>

theorem nan_price_is_stored:
  "fst (process_price_sheet (serving nan_payload 0) new_calculator Csv nan_payload) = SheetOk 1 None None
   \<and> self_devices (snd (process_price_sheet (serving nan_payload 0) new_calculator Csv nan_payload))
      = [(u ''Galaxy'', DeviceData NaN None)]
   \<and> devices_file (snd (process_price_sheet (serving nan_payload 0) new_calculator Csv nan_payload))
      = Some [(u ''Galaxy'', DeviceData NaN None)]
   \<and> \<not> float_gt0 (msrp (DeviceData NaN None))"
proof -
  have r: "comma_reader nan_payload = Inr ([u ''Phone'', u ''MSRP''], [[u ''Galaxy'', u ''nan'']])"
    by (simp add: nan_payload_def comma_reader_def Let_def)
  have p: "process_csv_stream (Inr ([u ''Phone'', u ''MSRP''], [[u ''Galaxy'', u ''nan'']]))
             = CsvOk [(u ''Galaxy'', DeviceData NaN None)] 1 0 (u ''Phone'') (u ''MSRP'') None"
    by (simp add: csv_eval price_eval)
  show ?thesis
    using r p
    by (simp add: process_price_sheet_def serving_def Let_def dict_update_def
          save_devices_def new_calculator_def split: prod.splits)
qed

end
